theory Spec2Isabelle
  imports Complex_Main
begin

section \<open>Values\<close>

text \<open>
  The exceptions the analysed code can raise, as values. A run of a method is a value of
  \<open>py_error + 'a\<close>: \<open>Inl e\<close> when the exception \<open>e\<close> reaches the caller.
\<close>

datatype py_error = KeyError | IndexError | ValueError | TypeError

text \<open>
  A computed Python float. A finite float is identified with the real number it denotes
  (rounding is not modelled, except in the row-normalised contingency table below, and
  the two zeros are one value); the infinities and NaN are kept apart because the
  comparisons of the verdict chains and the division of the attribution step treat them
  differently.
\<close>

datatype pyfloat = Fin real | PInf | NInf | NaN

text \<open>Python's \<open>a <= b\<close> and \<open>a > b\<close> on floats: every comparison with NaN is false.\<close>

fun fle :: "pyfloat \<Rightarrow> pyfloat \<Rightarrow> bool" where
  "fle NaN b = False"
| "fle a NaN = False"
| "fle NInf b = True"
| "fle a PInf = True"
| "fle PInf b = False"
| "fle a NInf = False"
| "fle (Fin x) (Fin y) = (x \<le> y)"

fun fgt :: "pyfloat \<Rightarrow> pyfloat \<Rightarrow> bool" where
  "fgt NaN b = False"
| "fgt a NaN = False"
| "fgt PInf PInf = False"
| "fgt PInf b = True"
| "fgt NInf b = False"
| "fgt (Fin x) PInf = False"
| "fgt (Fin x) NInf = True"
| "fgt (Fin x) (Fin y) = (x > y)"

text \<open>
  The float literals \<open>0.01\<close>, \<open>0.05\<close> and \<open>0.1\<close> of the source: the double-precision
  numbers nearest to the decimals, as exact fractions. Each is a little larger than
  the decimal it is written as.
\<close>

definition double_0_01 :: real where
  "double_0_01 = 5764607523034235 / 2 ^ 59"

definition double_0_05 :: real where
  "double_0_05 = 3602879701896397 / 2 ^ 56"

definition double_0_1 :: real where
  "double_0_1 = 3602879701896397 / 2 ^ 55"

section \<open>Data frames\<close>

text \<open>
  A cell of a numeric column: a finite number, or \<open>None\<close> for NaN (a missing value).
\<close>

type_synonym cell = "real option"

text \<open>
  A pandas \<open>DataFrame\<close> of numbers: the labels of its rows (the index) and its columns in
  order, each a name with its cells. A pandas \<open>Series\<close>: the labels of its entries and
  their values. Row labels are integers. In the frames and series pandas builds, every
  column has one cell per row label.
\<close>

record frame =
  f_index :: "int list"
  f_cols :: "(string \<times> cell list) list"

record pd_series =
  s_index :: "int list"
  s_values :: "cell list"

text \<open>A \<open>Series\<close> of floats indexed by names, as \<open>DataFrame.mean()\<close> returns it.\<close>

type_synonym series = "(string \<times> pyfloat) list"

definition nrows :: "frame \<Rightarrow> nat" where
  "nrows f = length (f_index f)"

text \<open>\<open>f[name]\<close>: the column, or \<open>KeyError\<close>.\<close>

definition getcol :: "frame \<Rightarrow> string \<Rightarrow> py_error + cell list" where
  "getcol f name = (case map_of (f_cols f) name of None \<Rightarrow> Inl KeyError | Some cells \<Rightarrow> Inr cells)"

text \<open>A column is replaced where it stands, or added last.\<close>

definition put_col :: "(string \<times> cell list) list \<Rightarrow> string \<Rightarrow> cell list \<Rightarrow> (string \<times> cell list) list" where
  "put_col cs name vals =
     (if name \<in> set (map fst cs)
      then map (\<lambda>(n, cells). if n = name then (n, vals) else (n, cells)) cs
      else cs @ [(name, vals)])"

text \<open>
  A frame without rows that is assigned a non-empty list of values takes the labels of
  the values as its index; the columns it has are filled with NaN.
\<close>

definition adopt_index :: "frame \<Rightarrow> int list \<Rightarrow> frame" where
  "adopt_index f labels =
     \<lparr>f_index = labels,
      f_cols = map (\<lambda>(n, cells). (n, replicate (length labels) None)) (f_cols f)\<rparr>"

text \<open>
  \<open>f[name] = vals\<close> for a numpy array: the values are taken by position; an array of
  another length than the index is a \<open>ValueError\<close>. A frame without rows takes the index
  \<open>0, 1, ...\<close> of the array.
\<close>

definition setcol_array :: "frame \<Rightarrow> string \<Rightarrow> cell list \<Rightarrow> py_error + frame" where
  "setcol_array f name vals =
     (if f_index f = [] \<and> vals \<noteq> []
      then Inr ((adopt_index f (map int [0..<length vals]))
                  \<lparr>f_cols := put_col (f_cols (adopt_index f (map int [0..<length vals]))) name vals\<rparr>)
      else if length vals \<noteq> nrows f then Inl ValueError
      else Inr (f\<lparr>f_cols := put_col (f_cols f) name vals\<rparr>))"

text \<open>
  \<open>f[name] = s\<close> for a \<open>Series\<close>: pandas aligns the series on the index of the frame.
  With equal indexes the values are taken as they are; otherwise each row gets the value
  the series has at the label of the row, NaN where the series has no such label, and a
  series with a repeated label cannot be aligned (\<open>ValueError\<close>). A frame without rows
  takes the index of the series.
\<close>

definition reindex :: "pd_series \<Rightarrow> int list \<Rightarrow> cell list" where
  "reindex s labels =
     map (\<lambda>r. case map_of (zip (s_index s) (s_values s)) r of None \<Rightarrow> None | Some v \<Rightarrow> v) labels"

definition setcol_series :: "frame \<Rightarrow> string \<Rightarrow> pd_series \<Rightarrow> py_error + frame" where
  "setcol_series f name s =
     (if f_index f = [] \<and> s_values s \<noteq> []
      then Inr ((adopt_index f (s_index s))
                  \<lparr>f_cols := put_col (f_cols (adopt_index f (s_index s))) name (s_values s)\<rparr>)
      else if s_index s = f_index f
      then Inr (f\<lparr>f_cols := put_col (f_cols f) name (s_values s)\<rparr>)
      else if \<not> distinct (s_index s) then Inl ValueError
      else Inr (f\<lparr>f_cols := put_col (f_cols f) name (reindex s (f_index f))\<rparr>))"

text \<open>\<open>f[mask]\<close> for a boolean mask: a new frame with the rows where the mask holds.\<close>

definition keep :: "bool list \<Rightarrow> 'a list \<Rightarrow> 'a list" where
  "keep flags cells = map snd (filter fst (zip flags cells))"

definition mask_rows :: "frame \<Rightarrow> bool list \<Rightarrow> frame" where
  "mask_rows f flags =
     \<lparr>f_index = keep flags (f_index f),
      f_cols = map (\<lambda>(n, cells). (n, keep flags cells)) (f_cols f)\<rparr>"

text \<open>
  \<open>f.drop(names, axis=1)\<close>: a new frame without these columns; a name that is not a
  column is a \<open>KeyError\<close>.
\<close>

definition drop_cols :: "frame \<Rightarrow> string list \<Rightarrow> py_error + frame" where
  "drop_cols f names =
     (if list_all (\<lambda>n. n \<in> set (map fst (f_cols f))) names
      then Inr (f\<lparr>f_cols := filter (\<lambda>(n, cells). n \<notin> set names) (f_cols f)\<rparr>)
      else Inl KeyError)"

text \<open>
  Elementwise comparison of cells: \<open>==\<close> is false and \<open>!=\<close> is true as soon as one side
  is NaN.
\<close>

definition cell_eq :: "cell \<Rightarrow> cell \<Rightarrow> bool" where
  "cell_eq a b = (a \<noteq> None \<and> a = b)"

definition cell_ne :: "cell \<Rightarrow> cell \<Rightarrow> bool" where
  "cell_ne a b = (\<not> cell_eq a b)"

text \<open>The values of a column that are not missing.\<close>

fun present :: "cell list \<Rightarrow> real list" where
  "present [] = []"
| "present (None # cells) = present cells"
| "present (Some v # cells) = v # present cells"

text \<open>
  The mean of a column: missing values are skipped, and the mean of no value is NaN.
\<close>

definition fmean :: "cell list \<Rightarrow> pyfloat" where
  "fmean cells =
     (if present cells = [] then NaN
      else Fin (sum_list (present cells) / real (length (present cells))))"

text \<open>\<open>f.mean()\<close>: the mean of every column, indexed by the column names.\<close>

definition mean_cols :: "frame \<Rightarrow> series" where
  "mean_cols f = map (\<lambda>(n, cells). (n, fmean cells)) (f_cols f)"

text \<open>Float subtraction and division (IEEE 754, without rounding).\<close>

fun fsub :: "pyfloat \<Rightarrow> pyfloat \<Rightarrow> pyfloat" where
  "fsub NaN b = NaN"
| "fsub a NaN = NaN"
| "fsub (Fin x) (Fin y) = Fin (x - y)"
| "fsub (Fin x) PInf = NInf"
| "fsub (Fin x) NInf = PInf"
| "fsub PInf PInf = NaN"
| "fsub PInf b = PInf"
| "fsub NInf NInf = NaN"
| "fsub NInf b = NInf"

fun fdiv :: "pyfloat \<Rightarrow> pyfloat \<Rightarrow> pyfloat" where
  "fdiv NaN b = NaN"
| "fdiv a NaN = NaN"
| "fdiv (Fin x) (Fin y) =
     (if y \<noteq> 0 then Fin (x / y) else if x = 0 then NaN else if 0 < x then PInf else NInf)"
| "fdiv (Fin x) b = Fin 0"
| "fdiv PInf (Fin y) = (if 0 \<le> y then PInf else NInf)"
| "fdiv NInf (Fin y) = (if 0 \<le> y then NInf else PInf)"
| "fdiv a b = NaN"

text \<open>\<open>x * 100\<close> for a float \<open>x\<close>.\<close>

fun scale100 :: "pyfloat \<Rightarrow> pyfloat" where
  "scale100 (Fin x) = Fin (x * 100)"
| "scale100 a = a"

text \<open>
  Arithmetic of two \<open>Series\<close>: pandas pairs the entries by index label. The result is
  given for the labels of the left operand, NaN where the right operand has no such
  label; the two operands of the attribution step are means of frames with the same
  columns.
\<close>

definition series_op :: "(pyfloat \<Rightarrow> pyfloat \<Rightarrow> pyfloat) \<Rightarrow> series \<Rightarrow> series \<Rightarrow> series" where
  "series_op f a b =
     map (\<lambda>(n, x). (n, case map_of b n of None \<Rightarrow> NaN | Some y \<Rightarrow> f x y)) a"

text \<open>
  A Python \<open>dict\<close> with its insertion order: assigning to a key that is present
  replaces the value where it stands, a new key goes last.
\<close>

definition dict_set :: "('k \<times> 'v) list \<Rightarrow> 'k \<Rightarrow> 'v \<Rightarrow> ('k \<times> 'v) list" where
  "dict_set d k v =
     (if k \<in> set (map fst d) then map (\<lambda>(k', v'). if k' = k then (k', v) else (k', v')) d
      else d @ [(k, v)])"

definition dict_get :: "('k \<times> 'v) list \<Rightarrow> 'k \<Rightarrow> py_error + 'v" where
  "dict_get d k = (case map_of d k of None \<Rightarrow> Inl KeyError | Some v \<Rightarrow> Inr v)"

text \<open>Sequencing of two steps that may raise: the second runs on the value of the first.\<close>

definition and_then :: "py_error + 'a \<Rightarrow> ('a \<Rightarrow> py_error + 'b) \<Rightarrow> py_error + 'b" where
  "and_then r f = (case r of Inl e \<Rightarrow> Inl e | Inr x \<Rightarrow> f x)"

text \<open>The results of a list of steps in order, or the first exception.\<close>

fun all_of :: "(py_error + 'a) list \<Rightarrow> py_error + 'a list" where
  "all_of [] = Inr []"
| "all_of (r # rs) = and_then r (\<lambda>x. and_then (all_of rs) (\<lambda>xs. Inr (x # xs)))"

text \<open>\<open>xs[i]\<close> on a Python list: a negative index counts from the end.\<close>

definition list_getitem :: "'a list \<Rightarrow> int \<Rightarrow> py_error + 'a" where
  "list_getitem xs i =
     (if 0 \<le> i \<and> i < int (length xs) then Inr (xs ! nat i)
      else if i < 0 \<and> - int (length xs) \<le> i then Inr (xs ! nat (int (length xs) + i))
      else Inl IndexError)"

section \<open>Contingency tables\<close>

text \<open>The distinct values of a column in ascending order: the labels of a crosstab axis.\<close>

definition levels :: "real list \<Rightarrow> real list" where
  "levels cells = sort (remdups cells)"

text \<open>
  \<open>pd.crosstab(index, columns)\<close>: one row per distinct value of \<open>index\<close>, one column
  per distinct value of \<open>columns\<close>, each cell the number of positions with that pair.
\<close>

definition crosstab :: "real list \<Rightarrow> real list \<Rightarrow> nat list list" where
  "crosstab index columns =
     map (\<lambda>r. map (\<lambda>c. length (filter (\<lambda>pair. pair = (r, c)) (zip index columns)))
                 (levels columns))
         (levels index)"

text \<open>
  \<open>pd.crosstab(index, columns, normalize='index')\<close>: every count divided by the sum of
  its row, and a NaN quotient (a row of zeros) replaced by 0. The float division of two
  counts is \<open>rd\<close> applied to the exact quotient: \<open>rd\<close> is the rounding of the machine.
\<close>

definition normalize_index :: "(real \<Rightarrow> real) \<Rightarrow> nat list list \<Rightarrow> real list list" where
  "normalize_index rd table =
     map (\<lambda>row. map (\<lambda>n. if sum_list row = 0 then 0 else rd (real n / real (sum_list row))) row)
         table"

text \<open>
  The positions that count: \<open>pd.crosstab\<close> leaves out every position where one of the
  two values is missing.
\<close>

fun valid_pairs :: "cell list \<Rightarrow> cell list \<Rightarrow> (real \<times> real) list" where
  "valid_pairs (Some x # xs) (Some y # ys) = (x, y) # valid_pairs xs ys"
| "valid_pairs (x # xs) (y # ys) = valid_pairs xs ys"
| "valid_pairs xs ys = []"

section \<open>The collaborators\<close>

text \<open>
  The libraries the code calls are parameters of the model: the classifier
  (\<open>model.predict\<close>), scipy's tests, scikit-learn's and fairlearn's metrics, the SHAP
  explainer and its plots, \<open>tabulate\<close>, and the rounding of float division. Each is a
  function of its arguments, and each may raise where its type has \<open>py_error\<close>.
  \<open>chi2_contingency\<close> gives the p-value of its result (the only component the code
  reads); \<open>chisquare\<close> takes the observed frequencies and the optional expected ones
  (\<open>None\<close> when the caller passes none, for which scipy takes all categories as equally
  likely) and gives the statistic and the p-value; \<open>explainer\<close> gives one explanation
  per row of the frame; \<open>plots_bar_cohorts\<close> is
  \<open>shap.plots.bar(shap_values.cohorts(c).abs.mean(0))\<close>, \<open>plots_bar\<close> is \<open>shap.plots.bar\<close>
  and \<open>plots_waterfall\<close> is \<open>shap.plots.waterfall\<close>. The figures of plotly and matplotlib
  are sinks: the model keeps what is drawn, not the drawing.
\<close>

record 'e collab =
  predict :: "frame \<Rightarrow> cell list"
  chi2_contingency :: "nat list list \<Rightarrow> py_error + pyfloat"
  chisquare :: "pyfloat list \<Rightarrow> pyfloat list option \<Rightarrow> pyfloat \<times> pyfloat"
  precision_score :: "cell list \<Rightarrow> cell list \<Rightarrow> py_error + pyfloat"
  true_positive_rate :: "cell list \<Rightarrow> cell list \<Rightarrow> py_error + pyfloat"
  false_positive_rate :: "cell list \<Rightarrow> cell list \<Rightarrow> py_error + pyfloat"
  true_negative_rate :: "cell list \<Rightarrow> cell list \<Rightarrow> py_error + pyfloat"
  false_negative_rate :: "cell list \<Rightarrow> cell list \<Rightarrow> py_error + pyfloat"
  selection_rate :: "cell list \<Rightarrow> cell list \<Rightarrow> py_error + pyfloat"
  accuracy_score :: "cell list \<Rightarrow> cell list \<Rightarrow> py_error + pyfloat"
  explainer :: "frame \<Rightarrow> py_error + 'e list"
  plots_bar_cohorts :: "'e list \<Rightarrow> string list \<Rightarrow> py_error + unit"
  plots_bar :: "'e list \<Rightarrow> py_error + unit"
  plots_waterfall :: "'e \<Rightarrow> py_error + unit"
  tabulate :: "real list \<Rightarrow> real list list \<Rightarrow> string list \<Rightarrow> string"
  rounding :: "real \<Rightarrow> real"

section \<open>Objects and the state of a run\<close>

text \<open>
  The caller's data are Python objects that the code receives by reference: a method
  could assign into them. The state of a run is the store of these objects (\<open>heap\<close>,
  with \<open>nxt\<close> the first address not yet used) and the hidden state of the \<open>random\<close>
  module (\<open>rng\<close>: the raw values it will hand out, in order).
\<close>

datatype obj = DataFrame frame | Series pd_series | Array "cell list"

record world =
  heap :: "nat \<Rightarrow> obj option"
  nxt :: nat
  rng :: "nat \<Rightarrow> nat"

text \<open>
  A statement sequence: it runs in a state and ends with a value or an exception, and
  with a new state. \<open>bnd\<close> is sequencing; an exception skips what follows.
\<close>

type_synonym 'a action = "world \<Rightarrow> (py_error + 'a) \<times> world"

definition ret :: "'a \<Rightarrow> 'a action" where
  "ret x = (\<lambda>w. (Inr x, w))"

definition lift :: "py_error + 'a \<Rightarrow> 'a action" where
  "lift r = (\<lambda>w. (r, w))"

definition bnd :: "'a action \<Rightarrow> ('a \<Rightarrow> 'b action) \<Rightarrow> 'b action" where
  "bnd m f = (\<lambda>w. case m w of (Inl e, w') \<Rightarrow> (Inl e, w') | (Inr x, w') \<Rightarrow> f x w')"

text \<open>A \<open>for\<close> loop over a list, threading the value the body updates.\<close>

fun for_each :: "('a \<Rightarrow> 's \<Rightarrow> 's action) \<Rightarrow> 'a list \<Rightarrow> 's \<Rightarrow> 's action" where
  "for_each body [] s = ret s"
| "for_each body (x # xs) s = bnd (body x s) (for_each body xs)"

definition read_frame :: "nat \<Rightarrow> frame action" where
  "read_frame a =
     (\<lambda>w. (case heap w a of Some (DataFrame f) \<Rightarrow> Inr f | _ \<Rightarrow> Inl TypeError, w))"

definition read_series :: "nat \<Rightarrow> pd_series action" where
  "read_series a =
     (\<lambda>w. (case heap w a of Some (Series s) \<Rightarrow> Inr s | _ \<Rightarrow> Inl TypeError, w))"

definition read_array :: "nat \<Rightarrow> (cell list) action" where
  "read_array a =
     (\<lambda>w. (case heap w a of Some (Array vals) \<Rightarrow> Inr vals | _ \<Rightarrow> Inl TypeError, w))"

text \<open>A new object: it gets the next unused address.\<close>

definition alloc :: "obj \<Rightarrow> nat action" where
  "alloc ob = (\<lambda>w. (Inr (nxt w), w\<lparr>heap := (heap w)(nxt w \<mapsto> ob), nxt := Suc (nxt w)\<rparr>))"

text \<open>\<open>X.copy()\<close>: a new frame with the same content.\<close>

definition frame_copy :: "nat \<Rightarrow> nat action" where
  "frame_copy a = bnd (read_frame a) (\<lambda>f. alloc (DataFrame f))"

text \<open>
  \<open>frame[name] = value\<close>: the frame object at address \<open>a\<close> is changed in place, to what
  \<open>upd\<close> makes of its content (\<open>setcol_array\<close> or \<open>setcol_series\<close> with the name and the
  value).
\<close>

definition frame_setitem :: "nat \<Rightarrow> (frame \<Rightarrow> py_error + frame) \<Rightarrow> unit action" where
  "frame_setitem a upd =
     bnd (read_frame a) (\<lambda>f.
     bnd (lift (upd f)) (\<lambda>f'.
     (\<lambda>w. (Inr (), w\<lparr>heap := (heap w)(a \<mapsto> DataFrame f')\<rparr>))))"

text \<open>
  \<open>randrange(0, n)\<close>: \<open>ValueError\<close> for an empty range, else the next raw value of the
  generator reduced to the range.
\<close>

definition randrange :: "nat \<Rightarrow> nat action" where
  "randrange n =
     (\<lambda>w. if n = 0 then (Inl ValueError, w)
          else (Inr (rng w 0 mod n), w\<lparr>rng := (\<lambda>k. rng w (Suc k))\<rparr>))"

section \<open>The class \<open>FairDetect\<close>\<close>

text \<open>
  An instance holds references to the caller's test features (a \<open>DataFrame\<close>) and true
  labels (a \<open>Series\<close>); the model is among the collaborators. The label map \<open>labels\<close> is
  a \<open>dict\<close> from the integer values of the sensitive attribute to group names, in
  insertion order with distinct keys; \<open>for i in labels\<close> visits its keys in that order.
  Predictions are a numpy array, as \<open>model.predict\<close> returns one.
\<close>

record fairdetect =
  X_test :: nat
  y_test :: nat

type_synonym labels = "(int \<times> string) list"

subsection \<open>\<open>representation\<close>\<close>

text \<open>What a bar of a figure shows: its x label (a group name or \<open>str(i)\<close>), its height
  and, where given, its colour.\<close>

datatype xlabel = Name string | Str int

type_synonym bar = "xlabel \<times> real \<times> string option"

record rep_result =
  r_cont_table :: string
  r_sens_df :: "(string \<times> nat) list"
  r_fig :: "bar list"
  r_p :: pyfloat

text \<open>
  The body of the first loop:
  \<^verbatim>\<open>full_table['p'] = predictions\<close>,
  \<^verbatim>\<open>full_table['t'] = y_test\<close>,
  \<^verbatim>\<open>sens_df[labels[i]] = full_table[full_table[sensitive]==i]\<close>.
\<close>

definition rep_partition_step ::
  "nat \<Rightarrow> nat \<Rightarrow> string \<Rightarrow> nat \<Rightarrow> int \<times> string \<Rightarrow> (string \<times> nat) list
     \<Rightarrow> ((string \<times> nat) list) action" where
  "rep_partition_step full_table yt sensitive predictions = (\<lambda>(i, name) sens_df.
     bnd (read_array predictions) (\<lambda>pv.
     bnd (frame_setitem full_table (\<lambda>f. setcol_array f ''p'' pv)) (\<lambda>u.
     bnd (read_series yt) (\<lambda>ts.
     bnd (frame_setitem full_table (\<lambda>f. setcol_series f ''t'' ts)) (\<lambda>u.
     bnd (read_frame full_table) (\<lambda>ft.
     bnd (lift (getcol ft sensitive)) (\<lambda>sc.
     bnd (alloc (DataFrame (mask_rows ft (map (\<lambda>v. cell_eq v (Some (of_int i))) sc)))) (\<lambda>a.
     ret (dict_set sens_df name a)))))))))"

text \<open>
  \<open>(s.value_counts() / s.value_counts().sum())[i]\<close>: the share of \<open>i\<close> among the values of
  \<open>s\<close> that are not missing; \<open>KeyError\<close> when \<open>i\<close> is not a value of \<open>s\<close>.
\<close>

definition share_of :: "(real \<Rightarrow> real) \<Rightarrow> cell list \<Rightarrow> int \<Rightarrow> py_error + real" where
  "share_of rd cells i =
     (if of_int i \<in> set (present cells)
      then Inr (rd (real (length (filter (\<lambda>v. v = of_int i) (present cells)))
                    / real (length (present cells))))
      else Inl KeyError)"

text \<open>
  The body of the second loop:
  \<^verbatim>\<open>sens_rep[labels[i]] = (X_test[sensitive].value_counts()/...sum())[i]\<close>,
  \<^verbatim>\<open>labl_rep[str(i)] = (y_test.value_counts()/y_test.value_counts().sum())[i]\<close>.
  The keys \<open>str(i)\<close> of \<open>labl_rep\<close> are kept as the integers they print.
\<close>

definition rep_share_step ::
  "(real \<Rightarrow> real) \<Rightarrow> nat \<Rightarrow> nat \<Rightarrow> string \<Rightarrow> int \<times> string
     \<Rightarrow> (string \<times> real) list \<times> (int \<times> real) list
     \<Rightarrow> ((string \<times> real) list \<times> (int \<times> real) list) action" where
  "rep_share_step rd xt yt sensitive = (\<lambda>(i, name) (sens_rep, labl_rep).
     bnd (read_frame xt) (\<lambda>xf.
     bnd (lift (getcol xf sensitive)) (\<lambda>sc.
     bnd (lift (share_of rd sc i)) (\<lambda>sr.
     bnd (read_series yt) (\<lambda>ts.
     bnd (lift (share_of rd (s_values ts) i)) (\<lambda>lr.
     ret (dict_set sens_rep name sr, dict_set labl_rep i lr)))))))"

text \<open>
  The body of the third loop: one bar for the group, one for the label, the second
  coloured \<open>['orange', 'blue'][i]\<close>.
\<close>

definition rep_fig_step ::
  "(string \<times> real) list \<Rightarrow> (int \<times> real) list \<Rightarrow> int \<times> string \<Rightarrow> bar list
     \<Rightarrow> (bar list) action" where
  "rep_fig_step sens_rep labl_rep = (\<lambda>(i, name) fg.
     bnd (lift (dict_get sens_rep name)) (\<lambda>sr.
     bnd (lift (dict_get labl_rep i)) (\<lambda>lr.
     bnd (lift (list_getitem [''orange'', ''blue''] i)) (\<lambda>colour.
     ret (fg @ [(Name name, sr, None), (Str i, lr, Some colour)])))))"

text \<open>
  The two columns \<open>pd.crosstab\<close> counts: the sensitive attribute and the true label at
  the positions where neither is missing.
\<close>

definition crossed :: "cell list \<Rightarrow> cell list \<Rightarrow> nat list list" where
  "crossed sc tc = crosstab (map fst (valid_pairs sc tc)) (map snd (valid_pairs sc tc))"

definition representation ::
  "'e collab \<Rightarrow> nat \<Rightarrow> nat \<Rightarrow> string \<Rightarrow> labels \<Rightarrow> nat \<Rightarrow> rep_result action" where
  "representation c xt yt sensitive labels predictions =
     bnd (frame_copy xt) (\<lambda>full_table.
     bnd (for_each (rep_partition_step full_table yt sensitive predictions) labels [])
       (\<lambda>sens_df.
     bnd (read_frame full_table) (\<lambda>ft.
     bnd (lift (getcol ft sensitive)) (\<lambda>sc.
     bnd (lift (getcol ft ''t'')) (\<lambda>tc.
     bnd (lift (chi2_contingency c (crossed sc tc))) (\<lambda>pp.
     bnd (for_each (rep_share_step (rounding c) xt yt sensitive) labels ([], []))
       (\<lambda>(sens_rep, labl_rep).
     bnd (for_each (rep_fig_step sens_rep labl_rep) labels []) (\<lambda>fg.
     bnd (lift (chi2_contingency c (crossed sc tc))) (\<lambda>pv.
     ret \<lparr>r_cont_table =
            tabulate c (levels (map snd (valid_pairs sc tc)))
              (transpose (normalize_index (rounding c) (crossed sc tc)))
              (map snd labels),
          r_sens_df = sens_df, r_fig = fg, r_p = pv\<rparr>)))))))))"

section \<open>The verdict chains\<close>

text \<open>
  The outcome of one \<open>if / elif / elif / else\<close> chain over a p-value: which of the four
  messages is printed.
\<close>

datatype tier = Reject99 | Reject95 | Reject90 | AcceptH0

text \<open>
  \<open>ability_metrics\<close>, second loop: \<open>"With 99% Confidence Level, Reject H0: "\<close>,
  \<open>"With 95% ..."\<close>, \<open>"With 90% ..."\<close>, \<open>"Accept H0: ... Disparity is Not Detected."\<close>
\<close>

definition ability_metrics_verdict :: "pyfloat \<Rightarrow> tier" where
  "ability_metrics_verdict items =
     (if fle items (Fin double_0_01) then Reject99
      else if fle items (Fin double_0_05) then Reject95
      else if fle items (Fin double_0_1) then Reject90
      else AcceptH0)"

text \<open>
  \<open>identify_bias\<close>, the chain over \<open>rep_p\<close>: \<open>"*** Reject H0: Significant Relation
  Between"\<close>, \<open>"** Reject H0: ..."\<close>, \<open>"* Reject H0: ..."\<close>, \<open>"Accept H0: No Significant
  Relation Between"\<close>.
\<close>

definition rep_verdict :: "pyfloat \<Rightarrow> tier" where
  "rep_verdict rep_p =
     (if fle rep_p (Fin double_0_01) then Reject99
      else if fle rep_p (Fin double_0_05) then Reject95
      else if fle rep_p (Fin double_0_1) then Reject90
      else AcceptH0)"

text \<open>
  \<open>identify_bias\<close>, the chain over \<open>pred_p\<close>: \<open>"*** Reject H0: Significant Predictive
  Disparity"\<close>, \<open>"** ..."\<close>, \<open>"* ..."\<close>, \<open>"Accept H0: No Significant Predictive Disparity."\<close>
\<close>

definition pred_verdict :: "pyfloat \<Rightarrow> tier" where
  "pred_verdict pred_p =
     (if fle pred_p (Fin double_0_01) then Reject99
      else if fle pred_p (Fin double_0_05) then Reject95
      else if fle pred_p (Fin double_0_1) then Reject90
      else AcceptH0)"

text \<open>The confidence a tier stands for, as a rank: a larger rank is a stronger rejection.\<close>

fun strength :: "tier \<Rightarrow> nat" where
  "strength Reject99 = 3"
| "strength Reject95 = 2"
| "strength Reject90 = 1"
| "strength AcceptH0 = 0"

subsection \<open>\<open>ability\<close> and \<open>ability_metrics\<close>\<close>

text \<open>
  fairlearn's \<open>MetricFrame\<close>, as far as the code reads it: \<open>by_group\<close>, a table with one
  row per distinct value of the sensitive feature (in ascending order, missing values
  aside) and one column per metric, in the order of the \<open>metrics\<close> dictionary. A cell is
  the metric applied to the true and the predicted labels at the positions of that
  group. The three inputs are taken by position; inputs of different lengths and empty
  inputs are a \<open>ValueError\<close>, and so is what a metric raises.
\<close>

type_synonym metric_frame = "(string \<times> pyfloat list) list"

definition group_cells :: "cell list \<Rightarrow> real \<Rightarrow> cell list \<Rightarrow> cell list" where
  "group_cells sf g cells = keep (map (\<lambda>v. v = Some g) sf) cells"

definition by_group_column ::
  "(cell list \<Rightarrow> cell list \<Rightarrow> py_error + pyfloat) \<Rightarrow> cell list \<Rightarrow> cell list \<Rightarrow> cell list
     \<Rightarrow> py_error + pyfloat list" where
  "by_group_column metric y_true y_pred sf =
     all_of (map (\<lambda>g. metric (group_cells sf g y_true) (group_cells sf g y_pred))
                 (levels (present sf)))"

definition ability :: "'e collab \<Rightarrow> fairdetect \<Rightarrow> nat \<Rightarrow> cell list \<Rightarrow> metric_frame action" where
  "ability c self predictions sen_feat_test =
     bnd (read_series (y_test self)) (\<lambda>ys.
     bnd (read_array predictions) (\<lambda>y_pred.
     if sen_feat_test = [] \<or> length (s_values ys) \<noteq> length sen_feat_test
          \<or> length y_pred \<noteq> length sen_feat_test
     then lift (Inl ValueError)
     else
     bnd (lift (by_group_column (true_positive_rate c) (s_values ys) y_pred sen_feat_test)) (\<lambda>tpr.
     bnd (lift (by_group_column (false_positive_rate c) (s_values ys) y_pred sen_feat_test)) (\<lambda>fpr.
     bnd (lift (by_group_column (true_negative_rate c) (s_values ys) y_pred sen_feat_test)) (\<lambda>tnr.
     bnd (lift (by_group_column (false_negative_rate c) (s_values ys) y_pred sen_feat_test)) (\<lambda>fnr.
     bnd (lift (by_group_column (selection_rate c) (s_values ys) y_pred sen_feat_test)) (\<lambda>sel.
     bnd (lift (by_group_column (accuracy_score c) (s_values ys) y_pred sen_feat_test)) (\<lambda>acc.
     ret [(''true_positive_rate_m'', tpr), (''false_positive_rate_m'', fpr),
          (''true_negative_rate_m'', tnr), (''false_negative_rate_m'', fnr),
          (''selection_rate'', sel), (''accuracy_score'', acc)]))))))))"

definition list_test :: "string list" where
  "list_test = [''true_positive_rate_m'', ''false_positive_rate_m'',
                ''true_negative_rate_m'', ''false_negative_rate_m'']"

text \<open>
  The first loop of \<open>ability_metrics\<close> over \<open>dic_met = metric_frame.by_group.to_dict(orient='list')\<close>:
  \<^verbatim>\<open>if key in list_test: p_val = chisquare(list(np.array(list(items))*100))[1]; dic_p_val[key] = p_val\<close>.
\<close>

definition dic_p_val_of :: "'e collab \<Rightarrow> metric_frame \<Rightarrow> (string \<times> pyfloat) list" where
  "dic_p_val_of c dic_met =
     fold (\<lambda>(key, items) dic_p_val.
             if key \<in> set list_test
             then dict_set dic_p_val key (snd (chisquare c (map scale100 items) None))
             else dic_p_val)
          dic_met []"

text \<open>\<open>ability_metrics\<close> prints one line per entry of \<open>dic_p_val\<close>: the tier, the key and the p-value.\<close>

definition ability_metrics :: "'e collab \<Rightarrow> metric_frame \<Rightarrow> (tier \<times> string \<times> pyfloat) list" where
  "ability_metrics c mf =
     map (\<lambda>(key, items). (ability_metrics_verdict items, key, items)) (dic_p_val_of c mf)"

subsection \<open>\<open>predictive\<close>\<close>

record pred_result =
  precision_dic :: "(string \<times> pyfloat) list"
  pred_fig :: "string list \<times> pyfloat list"
  pred_p :: pyfloat

text \<open>
  The body of the loop:
  \<^verbatim>\<open>precision_dic[labels[i]] = precision_score(sens_df[labels[i]]['t'], sens_df[labels[i]]['p'])\<close>.
\<close>

definition predictive_step ::
  "'e collab \<Rightarrow> (string \<times> nat) list \<Rightarrow> int \<times> string \<Rightarrow> (string \<times> pyfloat) list
     \<Rightarrow> ((string \<times> pyfloat) list) action" where
  "predictive_step c sens_df = (\<lambda>(i, name) dic.
     bnd (lift (dict_get sens_df name)) (\<lambda>a.
     bnd (read_frame a) (\<lambda>g.
     bnd (lift (getcol g ''t'')) (\<lambda>tc.
     bnd (lift (getcol g ''p'')) (\<lambda>pc.
     bnd (lift (precision_score c tc pc)) (\<lambda>pr.
     ret (dict_set dic name pr)))))))"

definition predictive :: "'e collab \<Rightarrow> labels \<Rightarrow> (string \<times> nat) list \<Rightarrow> pred_result action" where
  "predictive c labels sens_df =
     bnd (for_each (predictive_step c sens_df) labels []) (\<lambda>dic.
     ret \<lparr>precision_dic = dic,
          pred_fig = (map snd labels, map snd dic),
          pred_p = snd (chisquare c (map scale100 (map snd dic)) None)\<rparr>)"

subsection \<open>\<open>identify_bias\<close>\<close>

text \<open>What \<open>identify_bias\<close> shows and prints, in order.\<close>

record bias_report =
  ib_rep_fig :: "bar list"
  ib_cont_table :: string
  ib_rep :: "tier \<times> pyfloat"
  ib_pred_fig :: "string list \<times> pyfloat list"
  ib_pred :: "tier \<times> pyfloat"
  ib_ability :: "(tier \<times> string \<times> pyfloat) list"
  ib_ability_plots :: metric_frame

definition identify_bias :: "'e collab \<Rightarrow> fairdetect \<Rightarrow> string \<Rightarrow> labels \<Rightarrow> bias_report action" where
  "identify_bias c self sensitive labels =
     bnd (read_frame (X_test self)) (\<lambda>xf.
     bnd (alloc (Array (predict c xf))) (\<lambda>predictions.
     bnd (representation c (X_test self) (y_test self) sensitive labels predictions) (\<lambda>rep.
     bnd (predictive c labels (r_sens_df rep)) (\<lambda>pr.
     bnd (read_frame (X_test self)) (\<lambda>xf'.
     bnd (lift (getcol xf' sensitive)) (\<lambda>sen_feat_test.
     bnd (ability c self predictions sen_feat_test) (\<lambda>mf.
     ret \<lparr>ib_rep_fig = r_fig rep,
          ib_cont_table = r_cont_table rep,
          ib_rep = (rep_verdict (r_p rep), r_p rep),
          ib_pred_fig = pred_fig pr,
          ib_pred = (pred_verdict (pred_p pr), pred_p pr),
          ib_ability = ability_metrics c mf,
          ib_ability_plots = mf\<rparr>)))))))"

subsection \<open>\<open>understand_shap\<close>\<close>

text \<open>
  \<^verbatim>\<open>np.where(X_test[sensitive]==list(labels.keys())[0], labels[0], labels[1])\<close>:
  the operands are evaluated from left to right, so the first key is read before the
  entries at the keys 0 and 1.
\<close>

definition sens_glob_coh_of :: "labels \<Rightarrow> cell list \<Rightarrow> py_error + string list" where
  "sens_glob_coh_of labels sc =
     (case labels of
        [] \<Rightarrow> Inl IndexError
      | (k0, name0) # rest \<Rightarrow>
          (case map_of labels 0 of
             None \<Rightarrow> Inl KeyError
           | Some l0 \<Rightarrow>
               (case map_of labels 1 of
                  None \<Rightarrow> Inl KeyError
                | Some l1 \<Rightarrow> Inr (map (\<lambda>v. if cell_eq v (Some (of_int k0)) then l0 else l1) sc))))"

text \<open>
  \<^verbatim>\<open>misclass = full_table[full_table.t != full_table.p]\<close>,
  \<^verbatim>\<open>affected_class = misclass[(misclass[sensitive] == affected_group) & (misclass.p == affected_target)]\<close>.
\<close>

definition affected_class_of :: "frame \<Rightarrow> string \<Rightarrow> int \<Rightarrow> int \<Rightarrow> py_error + frame" where
  "affected_class_of full_table sensitive affected_group affected_target =
     and_then (getcol full_table ''t'') (\<lambda>tc.
     and_then (getcol full_table ''p'') (\<lambda>pc.
     let misclass = mask_rows full_table (map (\<lambda>(t, p). cell_ne t p) (zip tc pc)) in
     and_then (getcol misclass sensitive) (\<lambda>ms.
     and_then (getcol misclass ''p'') (\<lambda>mp.
     Inr (mask_rows misclass
            (map (\<lambda>(s, p). cell_eq s (Some (of_int affected_group))
                           \<and> cell_eq p (Some (of_int affected_target)))
                 (zip ms mp)))))))"

text \<open>
  \<^verbatim>\<open>truclass = full_table[full_table.t == full_table.p]\<close>,
  \<^verbatim>\<open>tru_class = truclass[(truclass[sensitive] == affected_group) & (truclass.t == affected_target)]\<close>.
\<close>

definition tru_class_of :: "frame \<Rightarrow> string \<Rightarrow> int \<Rightarrow> int \<Rightarrow> py_error + frame" where
  "tru_class_of full_table sensitive affected_group affected_target =
     and_then (getcol full_table ''t'') (\<lambda>tc.
     and_then (getcol full_table ''p'') (\<lambda>pc.
     let truclass = mask_rows full_table (map (\<lambda>(t, p). cell_eq t p) (zip tc pc)) in
     and_then (getcol truclass sensitive) (\<lambda>ts.
     and_then (getcol truclass ''t'') (\<lambda>tt.
     Inr (mask_rows truclass
            (map (\<lambda>(s, t). cell_eq s (Some (of_int affected_group))
                           \<and> cell_eq t (Some (of_int affected_target)))
                 (zip ts tt)))))))"

text \<open>
  \<^verbatim>\<open>x_axis = list(affected_class.drop(['t','p',sensitive],axis=1).columns)\<close> and
  \<^verbatim>\<open>affect_character = list((affected_class.drop(...).mean() - other.drop(...).mean())
      / affected_class.drop(...).mean())\<close>, for \<open>other\<close> the true class or the full table.
\<close>

definition affect_character_of ::
  "frame \<Rightarrow> frame \<Rightarrow> string \<Rightarrow> py_error + string list \<times> pyfloat list" where
  "affect_character_of affected_class other sensitive =
     and_then (drop_cols affected_class [''t'', ''p'', sensitive]) (\<lambda>a.
     and_then (drop_cols other [''t'', ''p'', sensitive]) (\<lambda>b.
     Inr (map fst (f_cols a),
          map snd (series_op fdiv (series_op fsub (mean_cols a) (mean_cols b)) (mean_cols a)))))"

text \<open>What \<open>understand_shap\<close> plots before it samples a record.\<close>

record 'e shap_report =
  us_cohorts :: "'e list \<times> string list"
  us_shap_values2 :: "'e list"
  us_true_class :: "string list \<times> pyfloat list"
  us_all_members :: "string list \<times> pyfloat list"

text \<open>Lines 535 to 582: everything up to the figure "Average Comparison to All Members".\<close>

definition understand_shap_charts ::
  "'e collab \<Rightarrow> fairdetect \<Rightarrow> labels \<Rightarrow> string \<Rightarrow> int \<Rightarrow> int \<Rightarrow> ('e shap_report \<times> frame) action" where
  "understand_shap_charts c self labels sensitive affected_group affected_target =
     bnd (frame_copy (X_test self)) (\<lambda>full_table.
     bnd (read_series (y_test self)) (\<lambda>ts.
     bnd (frame_setitem full_table (\<lambda>f. setcol_series f ''t'' ts)) (\<lambda>u.
     bnd (read_frame (X_test self)) (\<lambda>xf.
     bnd (frame_setitem full_table (\<lambda>f. setcol_array f ''p'' (predict c xf))) (\<lambda>u.
     bnd (lift (explainer c xf)) (\<lambda>shap_values.
     bnd (lift (getcol xf sensitive)) (\<lambda>sc.
     bnd (lift (sens_glob_coh_of labels sc)) (\<lambda>sens_glob_coh.
     bnd (read_frame full_table) (\<lambda>ft.
     bnd (lift (affected_class_of ft sensitive affected_group affected_target)) (\<lambda>affected_class.
     bnd (lift (plots_bar_cohorts c shap_values sens_glob_coh)) (\<lambda>u.
     bnd (lift (drop_cols affected_class [''t'', ''p''])) (\<lambda>dropped.
     bnd (lift (explainer c dropped)) (\<lambda>shap_values2.
     bnd (lift (plots_bar c shap_values2)) (\<lambda>u.
     bnd (read_series (y_test self)) (\<lambda>ts'.
     bnd (frame_setitem full_table (\<lambda>f. setcol_series f ''t'' ts')) (\<lambda>u.
     bnd (read_frame (X_test self)) (\<lambda>xf'.
     bnd (frame_setitem full_table (\<lambda>f. setcol_array f ''p'' (predict c xf'))) (\<lambda>u.
     bnd (read_frame full_table) (\<lambda>ft'.
     bnd (lift (affected_class_of ft' sensitive affected_group affected_target)) (\<lambda>affected_class'.
     bnd (lift (tru_class_of ft' sensitive affected_group affected_target)) (\<lambda>tru_class.
     bnd (lift (affect_character_of affected_class' tru_class sensitive)) (\<lambda>true_fig.
     bnd (lift (affected_class_of ft' sensitive affected_group affected_target)) (\<lambda>affected_class''.
     bnd (lift (affect_character_of affected_class'' ft' sensitive)) (\<lambda>all_fig.
     ret (\<lparr>us_cohorts = (shap_values, sens_glob_coh),
           us_shap_values2 = shap_values2,
           us_true_class = true_fig,
           us_all_members = all_fig\<rparr>, affected_class'')))))))))))))))))))))))))"

text \<open>
  Lines 584 to 586:
  \<^verbatim>\<open>shap.plots.waterfall(explainer(affected_class.drop(['t','p'],axis=1))[randrange(0, len(affected_class))])\<close>.
  The explainer runs first, then \<open>randrange\<close>, then the subscript, then the plot.
\<close>

definition understand_shap_sample :: "'e collab \<Rightarrow> frame \<Rightarrow> (nat \<times> 'e) action" where
  "understand_shap_sample c affected_class =
     bnd (lift (drop_cols affected_class [''t'', ''p''])) (\<lambda>dropped.
     bnd (lift (explainer c dropped)) (\<lambda>explanations.
     bnd (randrange (nrows affected_class)) (\<lambda>k.
     bnd (lift (list_getitem explanations (int k))) (\<lambda>e.
     bnd (lift (plots_waterfall c e)) (\<lambda>u.
     ret (k, e))))))"

definition understand_shap ::
  "'e collab \<Rightarrow> fairdetect \<Rightarrow> labels \<Rightarrow> string \<Rightarrow> int \<Rightarrow> int
     \<Rightarrow> ('e shap_report \<times> nat \<times> 'e) action" where
  "understand_shap c self labels sensitive affected_group affected_target =
     bnd (understand_shap_charts c self labels sensitive affected_group affected_target)
       (\<lambda>(report, affected_class).
     bnd (understand_shap_sample c affected_class) (\<lambda>sample.
     ret (report, sample)))"

section \<open>The attribution comparison in the words of the specification\<close>

text \<open>
  The records of a table, one association list per row, and the value of a feature in a
  record (missing when the record has no such feature).
\<close>

definition records :: "frame \<Rightarrow> (string \<times> cell) list list" where
  "records f = map (\<lambda>k. map (\<lambda>(n, cells). (n, cells ! k)) (f_cols f)) [0..<nrows f]"

definition field :: "(string \<times> cell) list \<Rightarrow> string \<Rightarrow> cell" where
  "field r n = (case map_of r n of None \<Rightarrow> None | Some v \<Rightarrow> v)"

definition feature_mean :: "(string \<times> cell) list list \<Rightarrow> string \<Rightarrow> pyfloat" where
  "feature_mean rs n = fmean (map (\<lambda>r. field r n) rs)"

text \<open>
  The misclassified cohort: the rows where the predicted label differs from the true one,
  the sensitive attribute is the given group and the predicted label is the given label.
\<close>

definition misclassified_cohort :: "frame \<Rightarrow> string \<Rightarrow> int \<Rightarrow> int \<Rightarrow> (string \<times> cell) list list" where
  "misclassified_cohort table sensitive g l =
     filter (\<lambda>r. cell_ne (field r ''t'') (field r ''p'')
                 \<and> cell_eq (field r sensitive) (Some (of_int g))
                 \<and> cell_eq (field r ''p'') (Some (of_int l)))
            (records table)"

text \<open>
  The correctly classified rows of the same group whose true label is that predicted label.
\<close>

definition true_class_members :: "frame \<Rightarrow> string \<Rightarrow> int \<Rightarrow> int \<Rightarrow> (string \<times> cell) list list" where
  "true_class_members table sensitive g l =
     filter (\<lambda>r. cell_eq (field r ''t'') (field r ''p'')
                 \<and> cell_eq (field r sensitive) (Some (of_int g))
                 \<and> cell_eq (field r ''t'') (Some (of_int l)))
            (records table)"

text \<open>
  \<open>compareToTrueClass\<close>: for each feature (every column but the sensitive one and the two
  label columns), (mean over the cohort - mean over the true class members) / mean over
  the cohort.
\<close>

definition compareToTrueClass :: "frame \<Rightarrow> string \<Rightarrow> int \<Rightarrow> int \<Rightarrow> (string \<times> pyfloat) list" where
  "compareToTrueClass table sensitive g l =
     map (\<lambda>n. (n, fdiv (fsub (feature_mean (misclassified_cohort table sensitive g l) n)
                             (feature_mean (true_class_members table sensitive g l) n))
                       (feature_mean (misclassified_cohort table sensitive g l) n)))
         (filter (\<lambda>n. n \<notin> {''t'', ''p'', sensitive}) (map fst (f_cols table)))"

text \<open>A table as pandas keeps it: distinct column names, one cell per row in every column.\<close>

definition wf_frame :: "frame \<Rightarrow> bool" where
  "wf_frame f =
     (distinct (map fst (f_cols f)) \<and> list_all (\<lambda>(n, cells). length cells = nrows f) (f_cols f))"

section \<open>Sample collaborators and inputs\<close>

text \<open>
  scikit-learn's \<open>precision_score(y_true, y_pred)\<close> with its default arguments (binary
  average, positive label 1, \<open>zero_division="warn"\<close>): the share of the predicted
  positives that are true positives, and 0.0 with a warning when nothing is predicted
  positive. It raises \<open>ValueError\<close> for inputs that are empty, of different lengths, with
  a missing or a fractional value, with more than two labels, or with two labels
  neither of which is 1.
\<close>

definition sk_precision_score :: "cell list \<Rightarrow> cell list \<Rightarrow> py_error + pyfloat" where
  "sk_precision_score y_true y_pred =
     (if y_true = [] \<or> length y_true \<noteq> length y_pred \<or> None \<in> set (y_true @ y_pred)
         \<or> \<not> list_all (\<lambda>v. v = of_int \<lfloor>v\<rfloor>) (present (y_true @ y_pred))
         \<or> 2 < length (remdups (present (y_true @ y_pred)))
         \<or> (length (remdups (present (y_true @ y_pred))) = 2 \<and> 1 \<notin> set (present (y_true @ y_pred)))
      then Inl ValueError
      else if filter (\<lambda>v. v = Some 1) y_pred = [] then Inr (Fin 0)
      else Inr (Fin (real (length (filter (\<lambda>(t, p). t = Some 1 \<and> p = Some 1) (zip y_true y_pred)))
                    / real (length (filter (\<lambda>v. v = Some 1) y_pred)))))"

text \<open>
  A rate of two counts over the pairs of a true and a predicted label: 0.0 for a zero
  denominator, \<open>ValueError\<close> for a missing value.
\<close>

definition rate ::
  "((real \<times> real) \<Rightarrow> bool) \<Rightarrow> ((real \<times> real) \<Rightarrow> bool) \<Rightarrow> cell list \<Rightarrow> cell list
     \<Rightarrow> py_error + pyfloat" where
  "rate num den y_true y_pred =
     (if None \<in> set (y_true @ y_pred) then Inl ValueError
      else if filter den (valid_pairs y_true y_pred) = [] then Inr (Fin 0)
      else Inr (Fin (real (length (filter num (valid_pairs y_true y_pred)))
                     / real (length (filter den (valid_pairs y_true y_pred))))))"

text \<open>The finite values of a list of floats, when all are finite.\<close>

fun finite_values :: "pyfloat list \<Rightarrow> real list option" where
  "finite_values [] = Some []"
| "finite_values (Fin x # xs) = map_option ((#) x) (finite_values xs)"
| "finite_values (a # xs) = None"

text \<open>
  A stand-in for \<open>scipy.stats.chisquare\<close>: Pearson's statistic of the observed
  frequencies against the expected ones (their mean when none are given), and in the
  place of the p-value the statistic \<open>x\<close> mapped to \<open>1 / (1 + x)\<close>, which is 1 for equal
  frequencies and falls as they spread; NaN where the statistic is undefined. It is not
  the chi-square tail probability.
\<close>

definition pearson :: "real list \<Rightarrow> real list \<Rightarrow> pyfloat \<times> pyfloat" where
  "pearson obs expd =
     (if obs = [] \<or> length expd \<noteq> length obs \<or> 0 \<in> set expd then (NaN, NaN)
      else (Fin (sum_list (map (\<lambda>(x, e). (x - e) ^ 2 / e) (zip obs expd))),
            Fin (1 / (1 + sum_list (map (\<lambda>(x, e). (x - e) ^ 2 / e) (zip obs expd))))))"

definition sample_chisquare :: "pyfloat list \<Rightarrow> pyfloat list option \<Rightarrow> pyfloat \<times> pyfloat" where
  "sample_chisquare f_obs f_exp =
     (case finite_values f_obs of
        None \<Rightarrow> (NaN, NaN)
      | Some obs \<Rightarrow>
          (case f_exp of
             None \<Rightarrow> pearson obs (replicate (length obs) (sum_list obs / real (length obs)))
           | Some es \<Rightarrow> (case finite_values es of None \<Rightarrow> (NaN, NaN) | Some expd \<Rightarrow> pearson obs expd)))"

text \<open>
  A stand-in for \<open>scipy.stats.chi2_contingency\<close>: \<open>ValueError\<close> for a table without data
  or with an expected frequency of zero, else the same stand-in value for Pearson's
  statistic of the table against the products of its margins.
\<close>

definition sample_chi2_contingency :: "nat list list \<Rightarrow> py_error + pyfloat" where
  "sample_chi2_contingency table =
     (let total = sum_list (map sum_list table);
          obs = concat (map (map real) table);
          expd = concat (map (\<lambda>row. map (\<lambda>col. real (sum_list row) * real (sum_list col) / real total)
                                          (transpose table)) table)
      in if total = 0 \<or> 0 \<in> set expd then Inl ValueError else Inr (snd (pearson obs expd)))"

text \<open>
  One choice of collaborators for the closed examples below: a classifier that
  thresholds the column \<open>score\<close> at 0.5, the two stand-ins for scipy's tests,
  \<open>sk_precision_score\<close>, the confusion-matrix rates, an explainer that explains each row
  by its position, a bar plot that raises \<open>IndexError\<close> when it is given no explanation,
  an empty rendering and exact division.
\<close>

definition sample_collab :: "nat collab" where
  "sample_collab =
     \<lparr>predict = (\<lambda>f. case map_of (f_cols f) ''score'' of None \<Rightarrow> []
                      | Some cells \<Rightarrow> map (\<lambda>v. case v of None \<Rightarrow> Some 0
                                                  | Some x \<Rightarrow> if 1 / 2 \<le> x then Some 1 else Some 0) cells),
      chi2_contingency = sample_chi2_contingency,
      chisquare = sample_chisquare,
      precision_score = sk_precision_score,
      true_positive_rate = rate (\<lambda>(t, p). t = 1 \<and> p = 1) (\<lambda>(t, p). t = 1),
      false_positive_rate = rate (\<lambda>(t, p). t = 0 \<and> p = 1) (\<lambda>(t, p). t = 0),
      true_negative_rate = rate (\<lambda>(t, p). t = 0 \<and> p = 0) (\<lambda>(t, p). t = 0),
      false_negative_rate = rate (\<lambda>(t, p). t = 1 \<and> p = 0) (\<lambda>(t, p). t = 1),
      selection_rate = rate (\<lambda>(t, p). p = 1) (\<lambda>(t, p). True),
      accuracy_score = rate (\<lambda>(t, p). t = p) (\<lambda>(t, p). True),
      explainer = (\<lambda>f. Inr [0..<nrows f]),
      plots_bar_cohorts = (\<lambda>es cohorts. Inr ()),
      plots_bar = (\<lambda>es. if es = [] then Inl IndexError else Inr ()),
      plots_waterfall = (\<lambda>e. Inr ()),
      tabulate = (\<lambda>idx table headers. []),
      rounding = (\<lambda>x. x)\<rparr>"

text \<open>
  A state with the test features at address 0 and the true labels at address 1, and the
  instance that refers to them.
\<close>

definition world_of :: "frame \<Rightarrow> pd_series \<Rightarrow> world" where
  "world_of xf ys =
     \<lparr>heap = (\<lambda>a. if a = 0 then Some (DataFrame xf) else if a = 1 then Some (Series ys) else None),
      nxt = 2, rng = (\<lambda>k. k + 5)\<rparr>"

definition sample_self :: fairdetect where
  "sample_self = \<lparr>X_test = 0, y_test = 1\<rparr>"

text \<open>
  Five records: the two of group 1 are classified correctly; of the three of group 0, one
  is a false negative, one a false positive and one is classified correctly.
\<close>

definition sample_X :: frame where
  "sample_X =
     \<lparr>f_index = [0, 1, 2, 3, 4],
      f_cols = [(''sex'', [Some 1, Some 1, Some 0, Some 0, Some 0]),
                (''score'', [Some (9 / 10), Some (1 / 5), Some (3 / 10), Some (4 / 5), Some (7 / 10)]),
                (''age'', [Some 30, Some 40, Some 50, Some 20, Some 25])]\<rparr>"

definition sample_y :: pd_series where
  "sample_y = \<lparr>s_index = [0, 1, 2, 3, 4], s_values = [Some 1, Some 0, Some 1, Some 0, Some 1]\<rparr>"

definition sample_labels :: labels where
  "sample_labels = [(0, ''F''), (1, ''M'')]"

text \<open>The sample state once \<open>identify_bias\<close> has stored the predictions, at address 2.\<close>

definition sample_world :: world where
  "sample_world =
     (world_of sample_X sample_y)
       \<lparr>heap := (heap (world_of sample_X sample_y))(2 \<mapsto> Array (predict sample_collab sample_X)),
        nxt := 3\<rparr>"

section \<open>Assertions about runs\<close>

text \<open>
  \<open>hoare P m Q\<close>: from every state that satisfies \<open>P\<close>, the run of \<open>m\<close> ends with an
  outcome and a state that satisfy \<open>Q\<close>.
\<close>

definition hoare :: "(world \<Rightarrow> bool) \<Rightarrow> 'a action \<Rightarrow> (py_error + 'a \<Rightarrow> world \<Rightarrow> bool) \<Rightarrow> bool" where
  "hoare P m Q = (\<forall>w. P w \<longrightarrow> (case m w of (r, w') \<Rightarrow> Q r w'))"

text \<open>
  \<open>kept n h\<close>: the objects below address \<open>n\<close> are as in \<open>h\<close>, and the addresses in use
  reach at least \<open>n\<close>.
\<close>

definition kept :: "nat \<Rightarrow> (nat \<Rightarrow> obj option) \<Rightarrow> world \<Rightarrow> bool" where
  "kept n h w = (n \<le> nxt w \<and> (\<forall>a<n. heap w a = h a))"

text \<open>
  \<open>stable n h m Q\<close>: a run of \<open>m\<close> leaves the objects below \<open>n\<close> as they are, and a value
  it returns satisfies \<open>Q\<close>.
\<close>

definition stable :: "nat \<Rightarrow> (nat \<Rightarrow> obj option) \<Rightarrow> 'a action \<Rightarrow> ('a \<Rightarrow> bool) \<Rightarrow> bool" where
  "stable n h m Q = hoare (kept n h) m (\<lambda>r w. kept n h w \<and> (\<forall>x. r = Inr x \<longrightarrow> Q x))"

text \<open>The objects a dictionary of references names were all created from address \<open>n\<close> on.\<close>

definition fresh_dict :: "nat \<Rightarrow> (string \<times> nat) list \<Rightarrow> bool" where
  "fresh_dict n d = (\<forall>a \<in> snd ` set d. n \<le> a)"

text \<open>A state in which no object lies beyond the addresses in use.\<close>

definition wf_world :: "world \<Rightarrow> bool" where
  "wf_world w = (\<forall>a. nxt w \<le> a \<longrightarrow> heap w a = None)"

text \<open>
  Two runs, one that started with \<open>n1\<close> addresses in use and one that started with \<open>n2\<close>.
  Address \<open>a\<close> of the first corresponds to address \<open>b\<close> of the second when both are the
  same input object (an address in \<open>S\<close>) or both are the \<open>j\<close>-th object created since the
  start.
\<close>

definition paired :: "nat \<Rightarrow> nat \<Rightarrow> nat set \<Rightarrow> nat \<Rightarrow> nat \<Rightarrow> bool" where
  "paired n1 n2 S a b = ((a \<in> S \<and> b = a) \<or> (\<exists>j. a = n1 + j \<and> b = n2 + j))"

text \<open>
  The states of the two runs match: each has created as many objects as the other, and
  corresponding addresses hold the same object. What else the states hold, and the
  states of the random generator, are free.
\<close>

definition matching :: "nat \<Rightarrow> nat \<Rightarrow> nat set \<Rightarrow> world \<Rightarrow> world \<Rightarrow> bool" where
  "matching n1 n2 S w1 w2 =
     (wf_world w1 \<and> wf_world w2 \<and> (\<exists>k. nxt w1 = n1 + k \<and> nxt w2 = n2 + k) \<and>
      (\<forall>a \<in> S. a < n1 \<and> a < n2) \<and>
      (\<forall>a b. paired n1 n2 S a b \<longrightarrow> heap w1 a = heap w2 b))"

text \<open>
  \<open>corr n1 n2 S m1 m2 V\<close>: from matching states, \<open>m1\<close> and \<open>m2\<close> end in matching states,
  both with the same exception or with values related by \<open>V\<close>.
\<close>

definition corr ::
  "nat \<Rightarrow> nat \<Rightarrow> nat set \<Rightarrow> 'a action \<Rightarrow> 'a action \<Rightarrow> ('a \<Rightarrow> 'a \<Rightarrow> bool) \<Rightarrow> bool" where
  "corr n1 n2 S m1 m2 V =
     (\<forall>w1 w2. matching n1 n2 S w1 w2 \<longrightarrow>
        matching n1 n2 S (snd (m1 w1)) (snd (m2 w2)) \<and>
        (case fst (m1 w1) of
           Inl e \<Rightarrow> fst (m2 w2) = Inl e
         | Inr x \<Rightarrow> (\<exists>y. fst (m2 w2) = Inr y \<and> V x y)))"

text \<open>Two dictionaries of references with the same keys and corresponding addresses.\<close>

definition dict_rel :: "nat \<Rightarrow> nat \<Rightarrow> nat set \<Rightarrow> (string \<times> nat) list \<Rightarrow> (string \<times> nat) list \<Rightarrow> bool" where
  "dict_rel n1 n2 S d1 d2 =
     list_all2 (\<lambda>x y. fst x = fst y \<and> paired n1 n2 S (snd x) (snd y)) d1 d2"

text \<open>Two results of \<open>representation\<close> that differ at most in where the frames of \<open>sens_df\<close> lie.\<close>

definition rep_rel :: "nat \<Rightarrow> nat \<Rightarrow> nat set \<Rightarrow> rep_result \<Rightarrow> rep_result \<Rightarrow> bool" where
  "rep_rel n1 n2 S r1 r2 =
     (r_cont_table r1 = r_cont_table r2 \<and> r_fig r1 = r_fig r2 \<and> r_p r1 = r_p r2 \<and>
      dict_rel n1 n2 S (r_sens_df r1) (r_sens_df r2))"

text \<open>
  What a caller can read off the outcome of \<open>representation\<close>: the exception, or the
  table, the figure, the p-value and the frames of \<open>sens_df\<close> themselves.
\<close>

definition rep_output ::
  "(py_error + rep_result) \<times> world
     \<Rightarrow> py_error + string \<times> (string \<times> obj option) list \<times> bar list \<times> pyfloat" where
  "rep_output out =
     (case fst out of
        Inl e \<Rightarrow> Inl e
      | Inr res \<Rightarrow>
          Inr (r_cont_table res,
               map (\<lambda>(name, a). (name, heap (snd out) a)) (r_sens_df res),
               r_fig res, r_p res))"

section \<open>The ability disparity test\<close>

lemmas action_defs = bnd_def ret_def lift_def read_frame_def read_series_def read_array_def
  alloc_def frame_copy_def frame_setitem_def

lemma keep_map: "keep flags (map g xs) = map g (keep flags xs)"
  unfolding keep_def
  by (induction flags xs rule: list_induct2') auto

lemma keep_by_pred: "keep (map Q xs) xs = filter Q xs"
  unfolding keep_def by (induction xs) auto

lemma keep_nth:
  assumes "length cells = n"
  shows "keep flags cells = map (\<lambda>k. cells ! k) (keep flags [0..<n])"
proof -
  have "cells = map (\<lambda>k. cells ! k) [0..<n]"
    using assms by (metis map_nth)
  then have "keep flags cells = keep flags (map (\<lambda>k. cells ! k) [0..<n])" by simp
  then show ?thesis by (simp only: keep_map)
qed

lemma keep_positions:
  "keep (map Q xs) [0..<length xs] = filter (\<lambda>i. Q (xs ! i)) [0..<length xs]"
proof -
  have "map Q xs = map Q (map ((!) xs) [0..<length xs])"
    by (simp only: map_nth)
  also have "\<dots> = map (\<lambda>i. Q (xs ! i)) [0..<length xs]"
    by (simp only: map_map comp_def)
  finally have "keep (map Q xs) [0..<length xs]
                  = keep (map (\<lambda>i. Q (xs ! i)) [0..<length xs]) [0..<length xs]"
    by (rule arg_cong)
  then show ?thesis by (simp only: keep_by_pred)
qed

lemma present_map_Some: "present (map Some xs) = xs"
  by (induction xs) simp_all

lemma group_cells_rows:
  assumes "length vs = length xs"
  shows "group_cells (map Some xs) g (map Some vs)
           = map Some (map ((!) vs) (filter (\<lambda>i. xs ! i = g) [0..<length xs]))"
proof -
  have "group_cells (map Some xs) g (map Some vs) = map Some (keep (map (\<lambda>x. x = g) xs) vs)"
    by (simp add: group_cells_def keep_map comp_def)
  also have "keep (map (\<lambda>x. x = g) xs) vs
               = map ((!) vs) (keep (map (\<lambda>x. x = g) xs) [0..<length xs])"
    by (rule keep_nth [OF assms])
  finally show ?thesis by (simp only: keep_positions)
qed

lemma all_of_Inr: "all_of (map (\<lambda>g. Inr (f g)) gs) = Inr (map f gs)"
  by (induction gs) (simp_all add: and_then_def)

lemma by_group_column_value:
  assumes "length ts = length xs" and "length ps = length xs"
    and "\<forall>g \<in> set xs.
           metric (map Some (map ((!) ts) (filter (\<lambda>i. xs ! i = g) [0..<length xs])))
                  (map Some (map ((!) ps) (filter (\<lambda>i. xs ! i = g) [0..<length xs]))) = Inr (f g)"
  shows "by_group_column metric (map Some ts) (map Some ps) (map Some xs)
           = Inr (map f (sorted_list_of_set (set xs)))"
proof -
  have gs: "levels (present (map Some xs)) = sorted_list_of_set (set xs)"
    by (simp add: levels_def present_map_Some sorted_list_of_set_sort_remdups)
  have "map (\<lambda>g. metric (group_cells (map Some xs) g (map Some ts))
                         (group_cells (map Some xs) g (map Some ps)))
            (sorted_list_of_set (set xs))
          = map (\<lambda>g. Inr (f g)) (sorted_list_of_set (set xs))"
    using assms(3) by (intro map_cong [OF refl])
      (simp add: group_cells_rows [OF assms(1)] group_cells_rows [OF assms(2)])
  then show ?thesis
    by (simp only: by_group_column_def gs all_of_Inr)
qed

lemma dic_p_val_six:
  "dic_p_val_of c
     [(''true_positive_rate_m'', a1), (''false_positive_rate_m'', a2),
      (''true_negative_rate_m'', a3), (''false_negative_rate_m'', a4),
      (''selection_rate'', a5), (''accuracy_score'', a6)] =
     [(''true_positive_rate_m'', snd (chisquare c (map scale100 a1) None)),
      (''false_positive_rate_m'', snd (chisquare c (map scale100 a2) None)),
      (''true_negative_rate_m'', snd (chisquare c (map scale100 a3) None)),
      (''false_negative_rate_m'', snd (chisquare c (map scale100 a4) None))]"
  by (simp add: dic_p_val_of_def list_test_def dict_set_def)

lemma scale100_cases:
  "scale100 a = (case a of Fin x \<Rightarrow> Fin (x * 100) | PInf \<Rightarrow> PInf | NInf \<Rightarrow> NInf | NaN \<Rightarrow> NaN)"
  by (cases a) simp_all


text \<open>
  C1. On the metric frame that \<open>ability\<close> builds (six metrics per subgroup, selection
  rate and accuracy among them), \<open>ability_metrics\<close> computes exactly four p-values, one
  for each of TPR, FPR, TNR and FNR. The p-value of a rate is the p-value component of
  \<open>chisquare\<close> called with no expected frequencies (scipy's default: all categories
  equally likely) on the vector that holds, for each distinct value \<open>g\<close> of the
  sensitive feature in ascending order, 100 times the rate of the records whose
  sensitive value is \<open>g\<close>. Selection rate and accuracy are in the frame and get no
  p-value. Here \<open>xs\<close>, \<open>ts\<close> and \<open>ps\<close> are the sensitive values, the true and the predicted
  labels of the records (none missing), and \<open>tpr g\<close>, ..., \<open>acc g\<close> are what the six
  metric functions return on the labels of the group \<open>g\<close>.
\<close>

theorem ability_metrics_tests_four_rates:
  fixes tpr fpr tnr fnr sel acc :: "real \<Rightarrow> pyfloat"
  assumes "heap w (y_test self) = Some (Series ys)" and "s_values ys = map Some ts"
    and "heap w predictions = Some (Array (map Some ps))"
    and "xs \<noteq> []" and "length ts = length xs" and "length ps = length xs"
    and "\<forall>g \<in> set xs.
           \<forall>(metric, f) \<in> {(true_positive_rate c, tpr), (false_positive_rate c, fpr),
                              (true_negative_rate c, tnr), (false_negative_rate c, fnr),
                              (selection_rate c, sel), (accuracy_score c, acc)}.
             metric (map Some (map ((!) ts) (filter (\<lambda>i. xs ! i = g) [0..<length xs])))
                    (map Some (map ((!) ps) (filter (\<lambda>i. xs ! i = g) [0..<length xs])))
               = Inr (f g)"
  shows "\<exists>mf. fst (ability c self predictions (map Some xs) w) = Inr mf \<and>
     map fst mf = [''true_positive_rate_m'', ''false_positive_rate_m'', ''true_negative_rate_m'',
                   ''false_negative_rate_m'', ''selection_rate'', ''accuracy_score''] \<and>
     map_of mf ''selection_rate'' = Some (map sel (sorted_list_of_set (set xs))) \<and>
     map_of mf ''accuracy_score'' = Some (map acc (sorted_list_of_set (set xs))) \<and>
     dic_p_val_of c mf =
       [(''true_positive_rate_m'',
           snd (chisquare c
                  (map (\<lambda>g. case tpr g of Fin x \<Rightarrow> Fin (x * 100) | PInf \<Rightarrow> PInf
                                         | NInf \<Rightarrow> NInf | NaN \<Rightarrow> NaN)
                       (sorted_list_of_set (set xs))) None)),
        (''false_positive_rate_m'',
           snd (chisquare c
                  (map (\<lambda>g. case fpr g of Fin x \<Rightarrow> Fin (x * 100) | PInf \<Rightarrow> PInf
                                         | NInf \<Rightarrow> NInf | NaN \<Rightarrow> NaN)
                       (sorted_list_of_set (set xs))) None)),
        (''true_negative_rate_m'',
           snd (chisquare c
                  (map (\<lambda>g. case tnr g of Fin x \<Rightarrow> Fin (x * 100) | PInf \<Rightarrow> PInf
                                         | NInf \<Rightarrow> NInf | NaN \<Rightarrow> NaN)
                       (sorted_list_of_set (set xs))) None)),
        (''false_negative_rate_m'',
           snd (chisquare c
                  (map (\<lambda>g. case fnr g of Fin x \<Rightarrow> Fin (x * 100) | PInf \<Rightarrow> PInf
                                         | NInf \<Rightarrow> NInf | NaN \<Rightarrow> NaN)
                       (sorted_list_of_set (set xs))) None))]"
proof -
  let ?gs = "sorted_list_of_set (set xs)"
  have col: "by_group_column metric (map Some ts) (map Some ps) (map Some xs) = Inr (map f ?gs)"
    if "(metric, f) \<in> {(true_positive_rate c, tpr), (false_positive_rate c, fpr),
                              (true_negative_rate c, tnr), (false_negative_rate c, fnr),
                              (selection_rate c, sel), (accuracy_score c, acc)}" for metric f
    using by_group_column_value [OF assms(5,6), of metric f] assms(7) that by blast
  have c1: "by_group_column (true_positive_rate c) (map Some ts) (map Some ps) (map Some xs) = Inr (map tpr ?gs)"
    and c2: "by_group_column (false_positive_rate c) (map Some ts) (map Some ps) (map Some xs) = Inr (map fpr ?gs)"
    and c3: "by_group_column (true_negative_rate c) (map Some ts) (map Some ps) (map Some xs) = Inr (map tnr ?gs)"
    and c4: "by_group_column (false_negative_rate c) (map Some ts) (map Some ps) (map Some xs) = Inr (map fnr ?gs)"
    and c5: "by_group_column (selection_rate c) (map Some ts) (map Some ps) (map Some xs) = Inr (map sel ?gs)"
    and c6: "by_group_column (accuracy_score c) (map Some ts) (map Some ps) (map Some xs) = Inr (map acc ?gs)"
    by (rule col, simp)+
  have run: "ability c self predictions (map Some xs) w =
      (Inr [(''true_positive_rate_m'', map tpr ?gs), (''false_positive_rate_m'', map fpr ?gs),
            (''true_negative_rate_m'', map tnr ?gs), (''false_negative_rate_m'', map fnr ?gs),
            (''selection_rate'', map sel ?gs), (''accuracy_score'', map acc ?gs)], w)"
    using assms(1-6) by (simp add: ability_def action_defs c1 c2 c3 c4 c5 c6)
  have sc: "map (scale100 \<circ> f) ?gs
      = map (\<lambda>g. case f g of Fin x \<Rightarrow> Fin (x * 100) | PInf \<Rightarrow> PInf | NInf \<Rightarrow> NInf | NaN \<Rightarrow> NaN) ?gs"
    for f :: "real \<Rightarrow> pyfloat"
    by (simp add: scale100_cases comp_def)
  show ?thesis
    unfolding run by (simp add: dic_p_val_six sc)
qed

theorem ability_metrics_tests_four_rates_witness:
  "\<exists>mf. fst (ability sample_collab sample_self 2 (map Some [1, 1, 0, 0, 0]) sample_world) = Inr mf \<and>
     map fst mf = [''true_positive_rate_m'', ''false_positive_rate_m'', ''true_negative_rate_m'',
                   ''false_negative_rate_m'', ''selection_rate'', ''accuracy_score''] \<and>
     dic_p_val_of sample_collab mf =
       [(''true_positive_rate_m'', Fin (3 / 53)), (''false_positive_rate_m'', Fin (1 / 101)),
        (''true_negative_rate_m'', Fin (1 / 101)), (''false_negative_rate_m'', Fin (1 / 51))]"
proof -
  define tpr fpr tnr fnr sel acc :: "real \<Rightarrow> pyfloat"
    where "tpr = (\<lambda>g. if g = 0 then Fin (1 / 2) else Fin 1)"
      and "fpr = (\<lambda>g. if g = 0 then Fin 1 else Fin 0)"
      and "tnr = (\<lambda>g. if g = 0 then Fin 0 else Fin 1)"
      and "fnr = (\<lambda>g. if g = 0 then Fin (1 / 2) else Fin 0)"
      and "sel = (\<lambda>g. if g = 0 then Fin (2 / 3) else Fin (1 / 2))"
      and "acc = (\<lambda>g. if g = 0 then Fin (1 / 3) else Fin 1)"
  note fs = tpr_def fpr_def tnr_def fnr_def sel_def acc_def
  let ?xs = "[1, 1, 0, 0, 0] :: real list"
  let ?ts = "[1, 0, 1, 0, 1] :: real list"
  let ?ps = "[1, 0, 0, 1, 1] :: real list"
  have y: "heap sample_world (y_test sample_self) = Some (Series sample_y)"
    by (simp add: sample_world_def world_of_def sample_self_def)
  have v: "s_values sample_y = map Some ?ts"
    by (simp add: sample_y_def)
  have p: "heap sample_world 2 = Some (Array (map Some ?ps))"
    by (simp add: sample_world_def sample_collab_def sample_X_def)
  have n: "?xs \<noteq> []" and l: "length ?ts = length ?xs" "length ?ps = length ?xs"
    by simp_all
  have up: "[0..<length ?xs] = [0, 1, 2, 3, 4]"
    by (simp add: upt_rec)
  have m: "\<forall>g \<in> set ?xs.
           \<forall>(metric, f) \<in> {(true_positive_rate sample_collab, tpr), (false_positive_rate sample_collab, fpr),
                              (true_negative_rate sample_collab, tnr), (false_negative_rate sample_collab, fnr),
                              (selection_rate sample_collab, sel), (accuracy_score sample_collab, acc)}.
             metric (map Some (map ((!) ?ts) (filter (\<lambda>i. ?xs ! i = g) [0..<length ?xs])))
                    (map Some (map ((!) ?ps) (filter (\<lambda>i. ?xs ! i = g) [0..<length ?xs])))
               = Inr (f g)"
    unfolding up by (simp add: sample_collab_def rate_def fs)
  have gs: "sorted_list_of_set (set ?xs) = [0, 1]"
    by (simp add: sorted_list_of_set_sort_remdups)
  have chi: "snd (chisquare sample_collab [Fin 50, Fin 100] None) = Fin (3 / 53)"
    "snd (chisquare sample_collab [Fin 100, Fin 0] None) = Fin (1 / 101)"
    "snd (chisquare sample_collab [Fin 0, Fin 100] None) = Fin (1 / 101)"
    "snd (chisquare sample_collab [Fin 50, Fin 0] None) = Fin (1 / 51)"
    by (simp_all add: sample_collab_def sample_chisquare_def pearson_def power2_eq_square)
  from ability_metrics_tests_four_rates [OF y v p n l m]
  obtain mf where "fst (ability sample_collab sample_self 2 (map Some ?xs) sample_world) = Inr mf"
    and "map fst mf = [''true_positive_rate_m'', ''false_positive_rate_m'', ''true_negative_rate_m'',
                   ''false_negative_rate_m'', ''selection_rate'', ''accuracy_score'']"
    and "dic_p_val_of sample_collab mf =
       [(''true_positive_rate_m'', Fin (3 / 53)), (''false_positive_rate_m'', Fin (1 / 101)),
        (''true_negative_rate_m'', Fin (1 / 101)), (''false_negative_rate_m'', Fin (1 / 51))]"
    unfolding gs by (auto simp: fs chi)
  then show ?thesis by (intro exI conjI)
qed

section \<open>Properties of the verdict chains\<close>

lemma fle_trans: "fle a b \<Longrightarrow> fle b c \<Longrightarrow> fle a c"
  by (cases a; cases b; cases c) auto

lemma fgt_not_fle: "fgt a b \<Longrightarrow> \<not> fle a b"
  by (cases a; cases b) auto

lemma doubles_ordered: "double_0_01 < double_0_05" "double_0_05 < double_0_1"
  by (simp_all add: double_0_01_def double_0_05_def double_0_1_def)

lemma chain_tiers:
  "(fle p (Fin double_0_01) \<longrightarrow> ability_metrics_verdict p = Reject99) \<and>
   (fgt p (Fin double_0_01) \<and> fle p (Fin double_0_05) \<longrightarrow> ability_metrics_verdict p = Reject95) \<and>
   (fgt p (Fin double_0_05) \<and> fle p (Fin double_0_1) \<longrightarrow> ability_metrics_verdict p = Reject90) \<and>
   (fgt p (Fin double_0_1) \<longrightarrow> ability_metrics_verdict p = AcceptH0)"
  using doubles_ordered by (cases p) (auto simp: ability_metrics_verdict_def)

lemma chain_monotone:
  assumes "fle p1 p2"
  shows "strength (ability_metrics_verdict p2) \<le> strength (ability_metrics_verdict p1)"
proof -
  have "fle p2 c \<Longrightarrow> fle p1 c" for c
    using assms fle_trans by blast
  then show ?thesis
    by (auto simp: ability_metrics_verdict_def)
qed

lemma chains_agree:
  "rep_verdict = ability_metrics_verdict" "pred_verdict = ability_metrics_verdict"
  by (auto simp: fun_eq_iff rep_verdict_def pred_verdict_def ability_metrics_verdict_def)

text \<open>
  C2. Each of the three verdict chains (the one of \<open>ability_metrics\<close> and the two of
  \<open>identify_bias\<close>, over the representation and the predictive p-value) sends
  \<open>p \<le> 0.01\<close> to the 99% rejection, \<open>0.01 < p \<le> 0.05\<close> to the 95% rejection,
  \<open>0.05 < p \<le> 0.10\<close> to the 90% rejection and \<open>p > 0.10\<close> to acceptance of the null;
  and it is monotone: when \<open>p1 \<le> p2\<close>, the tier of \<open>p1\<close> is at least as strong as the
  tier of \<open>p2\<close>. The thresholds are the floats that the literals \<open>0.01\<close>, \<open>0.05\<close> and
  \<open>0.1\<close> denote and the comparisons are Python's, so a p-value equal to the float
  \<open>0.1\<close> is a 90% rejection, and the statement covers NaN and the infinities as well.
\<close>

theorem verdict_policy:
  assumes "v \<in> {ability_metrics_verdict, rep_verdict, pred_verdict}"
  shows "(fle p (Fin double_0_01) \<longrightarrow> v p = Reject99) \<and>
         (fgt p (Fin double_0_01) \<and> fle p (Fin double_0_05) \<longrightarrow> v p = Reject95) \<and>
         (fgt p (Fin double_0_05) \<and> fle p (Fin double_0_1) \<longrightarrow> v p = Reject90) \<and>
         (fgt p (Fin double_0_1) \<longrightarrow> v p = AcceptH0) \<and>
         (fle p1 p2 \<longrightarrow> strength (v p2) \<le> strength (v p1))"
proof -
  from assms have v: "v = ability_metrics_verdict"
    using chains_agree by auto
  show ?thesis
    unfolding v using chain_tiers [of p] chain_monotone [of p1 p2] by blast
qed

theorem verdict_policy_witness:
  "ability_metrics_verdict (Fin 0.005) = Reject99 \<and>
   rep_verdict (Fin 0.03) = Reject95 \<and>
   pred_verdict (Fin 0.08) = Reject90 \<and>
   ability_metrics_verdict (Fin 0.5) = AcceptH0 \<and>
   pred_verdict (Fin double_0_01) = Reject99 \<and>
   rep_verdict (Fin double_0_05) = Reject95 \<and>
   ability_metrics_verdict (Fin double_0_1) = Reject90 \<and>
   strength (rep_verdict (Fin 0.08)) \<le> strength (rep_verdict (Fin 0.03))"
proof -
  have a: "fle (Fin 0.005) (Fin double_0_01)"
    and b: "fgt (Fin 0.03) (Fin double_0_01) \<and> fle (Fin 0.03) (Fin double_0_05)"
    and c: "fgt (Fin 0.08) (Fin double_0_05) \<and> fle (Fin 0.08) (Fin double_0_1)"
    and d: "fgt (Fin 0.5) (Fin double_0_1)"
    and e: "fle (Fin 0.03) (Fin 0.08)"
    and f: "fle (Fin double_0_01) (Fin double_0_01)"
    and g: "fgt (Fin double_0_05) (Fin double_0_01) \<and> fle (Fin double_0_05) (Fin double_0_05)"
    and h: "fgt (Fin double_0_1) (Fin double_0_05) \<and> fle (Fin double_0_1) (Fin double_0_1)"
    by (simp_all add: double_0_01_def double_0_05_def double_0_1_def)
  have 1: "ability_metrics_verdict (Fin 0.005) = Reject99"
    using a verdict_policy [of ability_metrics_verdict "Fin 0.005"] by blast
  have 2: "rep_verdict (Fin 0.03) = Reject95"
    using b verdict_policy [of rep_verdict "Fin 0.03"] by blast
  have 3: "pred_verdict (Fin 0.08) = Reject90"
    using c verdict_policy [of pred_verdict "Fin 0.08"] by blast
  have 4: "ability_metrics_verdict (Fin 0.5) = AcceptH0"
    using d verdict_policy [of ability_metrics_verdict "Fin 0.5"] by blast
  have 5: "strength (rep_verdict (Fin 0.08)) \<le> strength (rep_verdict (Fin 0.03))"
    using e verdict_policy [of rep_verdict _ "Fin 0.03" "Fin 0.08"] by blast
  have 6: "pred_verdict (Fin double_0_01) = Reject99"
    using f verdict_policy [of pred_verdict "Fin double_0_01"] by blast
  have 7: "rep_verdict (Fin double_0_05) = Reject95"
    using g verdict_policy [of rep_verdict "Fin double_0_05"] by blast
  have 8: "ability_metrics_verdict (Fin double_0_1) = Reject90"
    using h verdict_policy [of ability_metrics_verdict "Fin double_0_1"] by blast
  from 1 2 3 4 5 6 7 8 show ?thesis by blast
qed

section \<open>The row-normalised contingency table\<close>

lemma pair_count_sum:
  assumes "distinct cs" and "\<forall>pair \<in> set zs. snd pair \<in> set cs"
  shows "sum_list (map (\<lambda>c. length (filter (\<lambda>pair. pair = (r, c)) zs)) cs)
           = length (filter (\<lambda>pair. fst pair = r) zs)"
  using assms(2)
proof (induction zs)
  case Nil
  then show ?case by simp
next
  case (Cons z zs)
  obtain a b where z: "z = (a, b)" by (cases z)
  from Cons.prems z have b: "b \<in> set cs" by simp
  have one: "sum_list (map (\<lambda>c. if b = c then (1::nat) else 0) cs) = 1"
    using assms(1) b
  proof (induction cs)
    case Nil
    then show ?case by simp
  next
    case (Cons c cs)
    then show ?case by (cases "b = c") auto
  qed
  have split: "sum_list (map (\<lambda>c. length (filter (\<lambda>pair. pair = (r, c)) (z # zs))) cs)
      = sum_list (map (\<lambda>c. if z = (r, c) then (1::nat) else 0) cs)
        + sum_list (map (\<lambda>c. length (filter (\<lambda>pair. pair = (r, c)) zs)) cs)"
  proof -
    have "length (filter (\<lambda>pair. pair = (r, c)) (z # zs))
        = (if z = (r, c) then (1::nat) else 0) + length (filter (\<lambda>pair. pair = (r, c)) zs)" for c
      by simp
    then show ?thesis by (simp only: sum_list_addf)
  qed
  have first: "sum_list (map (\<lambda>c. if z = (r, c) then (1::nat) else 0) cs) = (if a = r then 1 else 0)"
  proof (cases "a = r")
    case True
    then show ?thesis using one z by simp
  next
    case False
    then show ?thesis using z by simp
  qed
  from Cons.IH Cons.prems have "sum_list (map (\<lambda>c. length (filter (\<lambda>pair. pair = (r, c)) zs)) cs)
           = length (filter (\<lambda>pair. fst pair = r) zs)" by simp
  with split first z show ?case by simp
qed

lemma levels_set: "set (levels cells) = set cells" "distinct (levels cells)"
  by (simp_all add: levels_def)

lemma crosstab_row_sum:
  assumes "length index = length columns" and "row \<in> set (crosstab index columns)"
  shows "0 < sum_list row"
proof -
  from assms(2) obtain r where r: "r \<in> set index"
    and row: "row = map (\<lambda>c. length (filter (\<lambda>pair. pair = (r, c)) (zip index columns))) (levels columns)"
    by (auto simp: crosstab_def levels_set)
  have "\<forall>pair \<in> set (zip index columns). snd pair \<in> set (levels columns)"
    by (auto simp: levels_set dest: set_zip_rightD)
  then have "sum_list row = length (filter (\<lambda>pair. fst pair = r) (zip index columns))"
    unfolding row using pair_count_sum [OF levels_set(2), of "zip index columns" columns r] by simp
  moreover have "r \<in> fst ` set (zip index columns)"
    using r assms(1) by (metis map_fst_zip set_map)
  then have "filter (\<lambda>pair. fst pair = r) (zip index columns) \<noteq> []"
    by (auto simp: filter_empty_conv)
  ultimately show ?thesis by simp
qed

lemma rounded_sum_close:
  fixes rd :: "real \<Rightarrow> real"
  assumes rd: "\<forall>x. \<bar>rd x - x\<bar> \<le> u * \<bar>x\<bar>"
    and xs: "\<forall>x \<in> set xs. 0 \<le> x"
  shows "\<bar>sum_list (map rd xs) - sum_list xs\<bar> \<le> u * sum_list xs"
  using xs
proof (induction xs)
  case Nil
  then show ?case by simp
next
  case (Cons x xs)
  from Cons have ih: "\<bar>sum_list (map rd xs) - sum_list xs\<bar> \<le> u * sum_list xs" by simp
  from Cons.prems have "0 \<le> x" by simp
  with rd have "\<bar>rd x - x\<bar> \<le> u * x" by (metis abs_of_nonneg)
  with ih show ?case by (simp add: distrib_left)
qed

lemma normalized_row_sum:
  fixes rd :: "real \<Rightarrow> real"
  assumes rd: "\<forall>x. \<bar>rd x - x\<bar> \<le> u * \<bar>x\<bar>" and pos: "0 < sum_list (row :: nat list)"
  shows "\<bar>sum_list (map (\<lambda>n. rd (real n / real (sum_list row))) row) - 1\<bar> \<le> u"
proof -
  define m where "m = real (sum_list row)"
  have m: "m \<noteq> 0" using pos unfolding m_def by linarith
  let ?xs = "map (\<lambda>n. real n / m) row"
  have tot: "sum_list ?xs = 1"
  proof -
    have "sum_list (map (\<lambda>n. real n / d) ns) = (\<Sum>n\<leftarrow>ns. real n) / d" for d and ns :: "nat list"
      by (induction ns) (simp_all add: add_divide_distrib)
    then have "sum_list ?xs = (\<Sum>n\<leftarrow>row. real n) / m"
      by simp
    also have "(\<Sum>n\<leftarrow>row. real n) = m"
      unfolding m_def by (induction row) simp_all
    finally show ?thesis using m by simp
  qed
  have "\<forall>x \<in> set ?xs. 0 \<le> x" unfolding m_def by auto
  from rounded_sum_close [OF rd this] tot
  show ?thesis unfolding m_def by (simp add: comp_def)
qed


text \<open>
  C7. Every row of the row-normalised contingency table of \<open>representation\<close>
  (\<open>pd.crosstab(full_table[sensitive], full_table['t'], normalize='index')\<close>) sums to 1
  within \<open>1e-9\<close>, for every pair of columns of one length, when the float division
  rounds with a relative error of at most \<open>2^-53\<close> (IEEE 754 double precision; the
  exact division is the case \<open>rd x = x\<close>). The sum is the exact sum of the cells.
\<close>

theorem row_normalized_rows_sum_to_one:
  fixes rd :: "real \<Rightarrow> real"
  assumes "\<forall>x. \<bar>rd x - x\<bar> \<le> \<bar>x\<bar> / 2 ^ 53"
    and "length index = length columns"
    and "row \<in> set (normalize_index rd (crosstab index columns))"
  shows "\<bar>sum_list row - 1\<bar> \<le> 1 / 10 ^ 9"
proof -
  from assms(3) obtain counts where counts: "counts \<in> set (crosstab index columns)"
    and row: "row = map (\<lambda>n. if sum_list counts = 0 then 0
                                else rd (real n / real (sum_list counts))) counts"
    by (auto simp: normalize_index_def)
  have pos: "0 < sum_list counts"
    using crosstab_row_sum [OF assms(2) counts] .
  define m where "m = sum_list counts"
  from pos have "m \<noteq> 0" unfolding m_def by linarith
  then have "row = map (\<lambda>n. rd (real n / real m)) counts"
    unfolding row m_def [symmetric] by simp
  then have row': "row = map (\<lambda>n. rd (real n / real (sum_list counts))) counts"
    by (simp only: m_def)
  have rd: "\<forall>x. \<bar>rd x - x\<bar> \<le> (1 / 2 ^ 53) * \<bar>x\<bar>"
    using assms(1) by simp
  have "\<bar>sum_list row - 1\<bar> \<le> 1 / 2 ^ 53"
    unfolding row' using normalized_row_sum [OF rd pos] .
  also have "(1::real) / 2 ^ 53 \<le> 1 / 10 ^ 9" by simp
  finally show ?thesis .
qed


theorem row_normalized_rows_sum_to_one_witness:
  "crosstab [0, 0, 1] [0, 1, 1] = [[1, 1], [0, 1]] \<and>
   \<bar>sum_list (hd (normalize_index (\<lambda>x. x * (1 + 1 / 2 ^ 53)) (crosstab [0, 0, 1] [0, 1, 1]))) - 1\<bar>
     \<le> 1 / 10 ^ 9"
proof -
  let ?rd = "\<lambda>x::real. x * (1 + 1 / 2 ^ 53)"
  have ct: "crosstab [0, 0, 1] [0, 1, 1] = [[1, 1], [0, 1]]"
    by (simp add: crosstab_def levels_def)
  have rd: "\<forall>x. \<bar>?rd x - x\<bar> \<le> \<bar>x\<bar> / 2 ^ 53"
    by (simp add: algebra_simps abs_mult)
  have len: "length [0, 0, 1::real] = length [0, 1, 1::real]"
    by simp
  have mem: "hd (normalize_index ?rd (crosstab [0, 0, 1] [0, 1, 1]))
               \<in> set (normalize_index ?rd (crosstab [0, 0, 1] [0, 1, 1]))"
    unfolding ct by (simp add: normalize_index_def)
  from ct row_normalized_rows_sum_to_one [OF rd len mem] show ?thesis
    by blast
qed

section \<open>Runs leave the objects of the caller alone\<close>

lemma stable_ret: "Q x \<Longrightarrow> stable n h (ret x) Q"
  by (simp add: stable_def hoare_def ret_def)

lemma stable_lift: "(\<And>x. r = Inr x \<Longrightarrow> Q x) \<Longrightarrow> stable n h (lift r) Q"
  by (simp add: stable_def hoare_def lift_def)

lemma stable_lift_any: "stable n h (lift r) (\<lambda>x. True)"
  by (simp add: stable_def hoare_def lift_def)

lemma stable_bnd:
  assumes "stable n h m R" and "\<And>x. R x \<Longrightarrow> stable n h (f x) Q"
  shows "stable n h (bnd m f) Q"
  unfolding stable_def hoare_def
proof (intro allI impI)
  fix w assume w: "kept n h w"
  obtain r w' where m: "m w = (r, w')" by (cases "m w")
  with assms(1) w have k: "kept n h w'" and r: "\<And>x. r = Inr x \<Longrightarrow> R x"
    by (auto simp: stable_def hoare_def)
  show "case bnd m f w of (r, w') \<Rightarrow> kept n h w' \<and> (\<forall>x. r = Inr x \<longrightarrow> Q x)"
  proof (cases r)
    case (Inl e)
    with m k show ?thesis by (simp add: bnd_def)
  next
    case (Inr x)
    with r have "R x" by simp
    from assms(2) [OF this] k have "case f x w' of (r, w'') \<Rightarrow> kept n h w'' \<and> (\<forall>y. r = Inr y \<longrightarrow> Q y)"
      by (simp add: stable_def hoare_def)
    with m Inr show ?thesis by (simp add: bnd_def)
  qed
qed

lemma stable_weaken: "stable n h m Q \<Longrightarrow> (\<And>x. Q x \<Longrightarrow> Q' x) \<Longrightarrow> stable n h m Q'"
  by (fastforce simp: stable_def hoare_def)

lemma stable_read_frame: "stable n h (read_frame a) (\<lambda>x. True)"
  by (simp add: stable_def hoare_def read_frame_def)

lemma stable_read_series: "stable n h (read_series a) (\<lambda>x. True)"
  by (simp add: stable_def hoare_def read_series_def)

lemma stable_alloc: "stable n h (alloc ob) (\<lambda>x. n \<le> x)"
  by (auto simp: stable_def hoare_def alloc_def kept_def)

lemma stable_read_array: "stable n h (read_array a) (\<lambda>x. True)"
  by (simp add: stable_def hoare_def read_array_def)

lemma stable_frame_setitem: "n \<le> a \<Longrightarrow> stable n h (frame_setitem a upd) (\<lambda>x. True)"
  by (auto simp: stable_def hoare_def frame_setitem_def read_frame_def lift_def bnd_def kept_def
      split: sum.splits option.splits obj.splits)

lemma stable_randrange: "stable n h (randrange k) (\<lambda>x. True)"
  by (auto simp: stable_def hoare_def randrange_def kept_def)

lemma stable_frame_copy: "stable n h (frame_copy a) (\<lambda>x. n \<le> x)"
  unfolding frame_copy_def by (rule stable_bnd [OF stable_read_frame stable_alloc])

lemma stable_for_each:
  assumes "\<And>x s. x \<in> set xs \<Longrightarrow> I s \<Longrightarrow> stable n h (body x s) I" and "I s"
  shows "stable n h (for_each body xs s) I"
  using assms
proof (induction xs arbitrary: s)
  case Nil
  then show ?case by (simp add: stable_ret)
next
  case (Cons x xs)
  show ?case
    unfolding for_each.simps
  proof (rule stable_bnd)
    show "stable n h (body x s) I" using Cons.prems by simp
    show "stable n h (for_each body xs s') I" if "I s'" for s'
      using Cons.IH [OF _ that] Cons.prems(1) by simp
  qed
qed

lemma fresh_dict_set: "fresh_dict n d \<Longrightarrow> n \<le> a \<Longrightarrow> fresh_dict n (dict_set d k a)"
  by (auto simp: fresh_dict_def dict_set_def split: if_splits)

lemma stable_rep_partition_step:
  assumes "n \<le> full_table" and "fresh_dict n d"
  shows "stable n h (rep_partition_step full_table yt sensitive predictions x d) (fresh_dict n)"
  unfolding rep_partition_step_def split_def
  by (intro stable_bnd [OF stable_read_series] stable_bnd [OF stable_read_array]
      stable_bnd [OF stable_frame_setitem] stable_bnd [OF stable_read_frame] stable_bnd [OF stable_lift_any] stable_bnd [OF stable_alloc]
      stable_ret fresh_dict_set assms)


lemmas stable_steps =
  stable_bnd [OF stable_read_series] stable_bnd [OF stable_read_array]
  stable_bnd [OF stable_frame_setitem] stable_bnd [OF stable_read_frame] stable_bnd [OF stable_lift_any] stable_bnd [OF stable_alloc]
  stable_bnd [OF stable_frame_copy] stable_bnd [OF stable_randrange]

lemma stable_rep_share_step:
  "stable n h (rep_share_step rd xt yt sensitive x s) (\<lambda>s. True)"
  unfolding rep_share_step_def split_def
  by (intro stable_steps stable_ret TrueI)

lemma stable_rep_fig_step:
  "stable n h (rep_fig_step sens_rep labl_rep x s) (\<lambda>s. True)"
  unfolding rep_fig_step_def split_def
  by (intro stable_steps stable_ret TrueI)

lemma stable_representation:
  "stable n h (representation c xt yt sensitive labels predictions) (\<lambda>res. fresh_dict n (r_sens_df res))"
  unfolding representation_def split_def
  apply (rule stable_bnd [OF stable_frame_copy])
  apply (rule stable_bnd [where R = "fresh_dict n"])
   apply (rule stable_for_each)
    apply (erule (1) stable_rep_partition_step)
   apply (simp add: fresh_dict_def)
  apply (intro stable_steps)
  apply (rule stable_bnd [where R = "\<lambda>s. True"])
   apply (rule stable_for_each [OF stable_rep_share_step TrueI])
  apply (rule stable_bnd [where R = "\<lambda>s. True"])
   apply (rule stable_for_each [OF stable_rep_fig_step TrueI])
  apply (intro stable_steps stable_ret)
  apply simp
  done

lemma stable_predictive_step:
  "stable n h (predictive_step c sens_df x s) (\<lambda>s. True)"
  unfolding predictive_step_def split_def
  by (intro stable_steps stable_ret TrueI)

lemma stable_predictive:
  "stable n h (predictive c labels sens_df) (\<lambda>s. True)"
  unfolding predictive_def
  apply (rule stable_bnd [where R = "\<lambda>s. True"])
   apply (rule stable_for_each [OF stable_predictive_step TrueI])
  apply (rule stable_ret)
  apply simp
  done

lemma stable_ability:
  "stable n h (ability c self predictions sen_feat_test) (\<lambda>s. True)"
  unfolding ability_def
  apply (intro stable_steps)
  apply (simp only: if_distrib [where f = "\<lambda>m. stable n h m Q" for Q] split: if_split)
  apply (intro conjI impI stable_lift_any stable_steps stable_ret TrueI)
  done

lemma stable_identify_bias:
  "stable n h (identify_bias c self sensitive labels) (\<lambda>s. True)"
  unfolding identify_bias_def
  by (intro stable_steps stable_bnd [OF stable_representation] stable_bnd [OF stable_predictive]
      stable_bnd [OF stable_ability] stable_ret TrueI)

lemma stable_understand_shap_charts:
  "stable n h (understand_shap_charts c self labels sensitive g l) (\<lambda>s. True)"
  unfolding understand_shap_charts_def
  by (intro stable_steps stable_ret TrueI) 

lemma stable_understand_shap_sample:
  "stable n h (understand_shap_sample c affected_class) (\<lambda>s. True)"
  unfolding understand_shap_sample_def
  by (intro stable_steps stable_ret TrueI)

lemma stable_understand_shap:
  "stable n h (understand_shap c self labels sensitive g l) (\<lambda>s. True)"
  unfolding understand_shap_def split_def
  by (intro stable_bnd [OF stable_understand_shap_charts] stable_bnd [OF stable_understand_shap_sample]
      stable_ret TrueI)

lemma stable_heap:
  assumes "stable (nxt w) (heap w) m Q" and "a < nxt w"
  shows "heap (snd (m w)) a = heap w a"
proof -
  obtain r w' where m: "m w = (r, w')" by (cases "m w")
  have "kept (nxt w) (heap w) w" by (simp add: kept_def)
  with assms(1) m have "kept (nxt w) (heap w) w'"
    unfolding stable_def hoare_def by fastforce
  with assms(2) m show ?thesis by (simp add: kept_def)
qed

lemma stable_value:
  assumes "stable (nxt w) (heap w) m Q" and "fst (m w) = Inr x"
  shows "Q x"
proof -
  obtain r w' where m: "m w = (r, w')" by (cases "m w")
  have "kept (nxt w) (heap w) w" by (simp add: kept_def)
  with assms m show ?thesis
    unfolding stable_def hoare_def by fastforce
qed

text \<open>
  C8. No analysis assigns into an object of the caller: after a run of \<open>representation\<close>,
  \<open>ability\<close>, \<open>predictive\<close>, \<open>identify_bias\<close> or \<open>understand_shap\<close>, whether it
  returns or raises, every object that existed before the call (the test features, the
  true labels and the predictions among them) is what it was; and the frames that
  \<open>representation\<close> returns in \<open>sens_df\<close> are new objects, none of them one of the caller's.
\<close>

theorem analyses_leave_inputs_unchanged:
  assumes "a < nxt w"
  shows "heap (snd (representation c xt yt sensitive labels predictions w)) a = heap w a \<and>
         heap (snd (ability c self predictions sf w)) a = heap w a \<and>
         heap (snd (predictive c labels sens_df w)) a = heap w a \<and>
         heap (snd (identify_bias c self sensitive labels w)) a = heap w a \<and>
         heap (snd (understand_shap c self labels sensitive g l w)) a = heap w a \<and>
         (\<forall>res. fst (representation c xt yt sensitive labels predictions w) = Inr res \<longrightarrow>
            (\<forall>b \<in> snd ` set (r_sens_df res). nxt w \<le> b \<and> b \<noteq> a))"
proof (intro conjI allI impI ballI)
  show "heap (snd (representation c xt yt sensitive labels predictions w)) a = heap w a"
    by (rule stable_heap [OF stable_representation assms])
  show "heap (snd (ability c self predictions sf w)) a = heap w a"
    by (rule stable_heap [OF stable_ability assms])
  show "heap (snd (predictive c labels sens_df w)) a = heap w a"
    by (rule stable_heap [OF stable_predictive assms])
  show "heap (snd (identify_bias c self sensitive labels w)) a = heap w a"
    by (rule stable_heap [OF stable_identify_bias assms])
  show "heap (snd (understand_shap c self labels sensitive g l w)) a = heap w a"
    by (rule stable_heap [OF stable_understand_shap assms])
next
  fix res b
  assume r: "fst (representation c xt yt sensitive labels predictions w) = Inr res"
    and b: "b \<in> snd ` set (r_sens_df res)"
  have "fresh_dict (nxt w) (r_sens_df res)"
    by (rule stable_value [OF stable_representation r])
  with b show "nxt w \<le> b" unfolding fresh_dict_def by blast
  with assms show "b \<noteq> a" by simp
qed

theorem analyses_leave_inputs_unchanged_witness:
  "heap (snd (representation sample_collab 0 1 ''sex'' sample_labels 2 sample_world)) 0
     = Some (DataFrame sample_X) \<and>
   heap (snd (identify_bias sample_collab sample_self ''sex'' sample_labels sample_world)) 0
     = Some (DataFrame sample_X) \<and>
   heap (snd (understand_shap sample_collab sample_self sample_labels ''sex'' 0 1 sample_world)) 1
     = Some (Series sample_y)"
proof -
  have 0: "0 < nxt sample_world" and 1: "1 < nxt sample_world"
    by (simp_all add: sample_world_def)
  have h0: "heap sample_world 0 = Some (DataFrame sample_X)"
    and h1: "heap sample_world 1 = Some (Series sample_y)"
    by (simp_all add: sample_world_def world_of_def)
  from analyses_leave_inputs_unchanged [OF 0, where c = sample_collab and xt = 0 and yt = 1
        and sensitive = "''sex''" and labels = sample_labels and predictions = 2
        and self = sample_self]
    analyses_leave_inputs_unchanged [OF 1, where c = sample_collab and self = sample_self
        and sensitive = "''sex''" and labels = sample_labels and g = 0 and l = 1]
  show ?thesis unfolding h0 h1 by blast
qed


end
